theory Spec2Isabelle
  imports Complex_Main "HOL-Library.Char_ord" "HOL-Library.List_Lexorder"
begin

section \<open>Catalog synchronisation between Shopline and Buy with Prime\<close>

text \<open>
  A shallow embedding of the Lambda handlers of the repository:
  \<^item> the scheduled batch synchronisation, \<^verbatim>\<open>event.mjs\<close>
    (\<^verbatim>\<open>src/unnamed/part_001\<close>);
  \<^item> the single-product webhook, \<^verbatim>\<open>webhook.mjs\<close>
    (\<^verbatim>\<open>src/shopline-bwp-sync/src/lambda/product/crud.mjs\<close>, lines 179 to 334);
  \<^item> the Shopline OAuth callback, \<^verbatim>\<open>shopline-install.mjs\<close>
    (\<^verbatim>\<open>src/code/shoplineinstall/index.mjs\<close>);
  \<^item> the signed install request, the token refresh sweep (\<^verbatim>\<open>refresh.mjs\<close>) and
    the Buy with Prime (BWP) endpoints
    (\<^verbatim>\<open>src/shopline-bwp-sync/src/lambda/auth/shopline/callback.mjs\<close>, lines 156 to
    273, 402 to 549 and 565 to 834).

  Everything a handler awaits (DynamoDB, Secrets Manager, the two platforms' HTTP APIs) is
  a collaborator: it is a parameter of the model, and each of its calls either returns a
  value or throws. A thrown JavaScript exception is the \<open>Inl\<close> of a sum.
\<close>

subsection \<open>Data\<close>

datatype error = Error string

text \<open>
  \<^verbatim>\<open>interface ProductData { id: string; title: string; description?: string; price: number }\<close>.
  A price read from a JSON response is a finite number, and \<^verbatim>\<open>!==\<close> on such
  numbers, on strings and on \<^verbatim>\<open>undefined\<close> is plain inequality of values.
  \<open>other_fields\<close> holds whatever else the platform returns for the product
  (timestamps and the like); no function of the repository reads it.
\<close>

record ProductData =
  p_id :: string
  title :: string
  description :: "string option"
  price :: rat
  other_fields :: "(string \<times> string) list"

text \<open>The object literal built by \<^verbatim>\<open>convertToBWPFormat\<close>.\<close>

record BWPFormat =
  bwp_title :: string
  bwp_description :: "string option"
  bwp_price :: rat

text \<open>An item of the installation table, as far as the handlers read it.\<close>

record store =
  store_id :: string
  bwpInstallationId :: "string option"

text \<open>
  A Lambda proxy response: the status, the \<open>Location\<close> header when there is one,
  and the body, a JSON text.
\<close>

record response =
  statusCode :: nat
  location :: "string option"
  body :: string

text \<open>
  What a run leaves behind, in order: the calls of \<^verbatim>\<open>updateBWPProduct\<close>
  (installation, product id, payload) and the lines written to the console inside the
  loops. The console is the only record of a decision that the handlers write.
\<close>

datatype effect =
    CallUpdateBWP string string BWPFormat
  | LogSkipping string
  | LogUpdated string string
  | LogCreated string string
  | LogNoUpdate string string
  | LogError error

text \<open>
  The collaborators of the two synchronisation handlers, over a state \<open>'w\<close> of the
  outside world. Only \<^verbatim>\<open>updateBWPProduct\<close> changes it.
\<close>

record 'w platform =
  getAllStores :: "'w \<Rightarrow> error + store list"
  getStoreInfo :: "'w \<Rightarrow> string \<Rightarrow> error + store"
  getShoplineProducts :: "'w \<Rightarrow> string \<Rightarrow> error + ProductData list"
  getShoplineProduct :: "'w \<Rightarrow> string \<Rightarrow> string \<Rightarrow> error + ProductData"
  getBWPProducts :: "'w \<Rightarrow> string \<Rightarrow> error + ProductData list"
  getBWPProduct :: "'w \<Rightarrow> string \<Rightarrow> string \<Rightarrow> error + ProductData"
  updateBWPProduct :: "'w \<Rightarrow> string \<Rightarrow> string \<Rightarrow> BWPFormat \<Rightarrow> error + 'w"

type_synonym 'w run = "effect list \<times> 'w"

subsection \<open>The batch handler (\<^verbatim>\<open>event.mjs\<close>)\<close>

text \<open>JavaScript truthiness of an optional string: absent and empty are falsy.\<close>

definition truthy :: "string option \<Rightarrow> bool" where
  "truthy v = (case v of None \<Rightarrow> False | Some s \<Rightarrow> s \<noteq> [])"

definition compareProducts :: "ProductData \<Rightarrow> ProductData \<Rightarrow> bool" where
  "compareProducts shoplineProduct bwpProduct =
     (title shoplineProduct \<noteq> title bwpProduct \<or>
      description shoplineProduct \<noteq> description bwpProduct \<or>
      price shoplineProduct \<noteq> price bwpProduct)"

definition convertToBWPFormat :: "ProductData \<Rightarrow> BWPFormat" where
  "convertToBWPFormat shoplineProduct =
     \<lparr>bwp_title = title shoplineProduct,
      bwp_description = description shoplineProduct,
      bwp_price = price shoplineProduct\<rparr>"

text \<open>
  \<^verbatim>\<open>await updateBWPProduct(...); console.log(...)\<close>: the call is made, and the
  line is written only when the call returned.
\<close>

definition pushThenLog ::
  "'w platform \<Rightarrow> string \<Rightarrow> string \<Rightarrow> ProductData \<Rightarrow> effect \<Rightarrow> 'w run
     \<Rightarrow> error option \<times> 'w run" where
  "pushThenLog P inst productId shoplineProduct line s =
     (let payload = convertToBWPFormat shoplineProduct;
          called = fst s @ [CallUpdateBWP inst productId payload]
      in (case updateBWPProduct P (snd s) inst productId payload of
            Inl e \<Rightarrow> (Some e, (called, snd s))
          | Inr w' \<Rightarrow> (None, (called @ [line], w'))))"

text \<open>The body of the inner loop, lines 133 to 145.\<close>

definition syncProduct ::
  "'w platform \<Rightarrow> string \<Rightarrow> string \<Rightarrow> ProductData list \<Rightarrow> ProductData \<Rightarrow> 'w run
     \<Rightarrow> error option \<times> 'w run" where
  "syncProduct P handle inst bwpProducts shoplineProduct s =
     (let bwpProduct = find (\<lambda>p. p_id p = p_id shoplineProduct) bwpProducts in
      if (case bwpProduct of None \<Rightarrow> False | Some bp \<Rightarrow> compareProducts shoplineProduct bp)
      then pushThenLog P inst (p_id shoplineProduct) shoplineProduct
             (LogUpdated (p_id shoplineProduct) handle) s
      else if bwpProduct = None
      then pushThenLog P inst (p_id shoplineProduct) shoplineProduct
             (LogCreated (p_id shoplineProduct) handle) s
      else (None, (fst s @ [LogNoUpdate (p_id shoplineProduct) handle], snd s)))"

text \<open>The inner loop: an exception leaves it at once.\<close>

fun syncProducts ::
  "'w platform \<Rightarrow> string \<Rightarrow> string \<Rightarrow> ProductData list \<Rightarrow> ProductData list \<Rightarrow> 'w run
     \<Rightarrow> error option \<times> 'w run" where
  "syncProducts P handle inst bwpProducts [] s = (None, s)"
| "syncProducts P handle inst bwpProducts (sp # sps) s =
     (case syncProduct P handle inst bwpProducts sp s of
        (Some e, s') \<Rightarrow> (Some e, s')
      | (None, s') \<Rightarrow> syncProducts P handle inst bwpProducts sps s')"

text \<open>The body of the outer loop, lines 121 to 146.\<close>

definition syncStore :: "'w platform \<Rightarrow> store \<Rightarrow> 'w run \<Rightarrow> error option \<times> 'w run" where
  "syncStore P st s =
     (let handle = store_id st in
      if \<not> truthy (bwpInstallationId st) then (None, (fst s @ [LogSkipping handle], snd s))
      else
        (let inst = the (bwpInstallationId st)
         in (case getShoplineProducts P (snd s) handle of
               Inl e \<Rightarrow> (Some e, s)
             | Inr shoplineProducts \<Rightarrow>
                 (case getBWPProducts P (snd s) inst of
                    Inl e \<Rightarrow> (Some e, s)
                  | Inr bwpProducts \<Rightarrow>
                      syncProducts P handle inst bwpProducts shoplineProducts s))))"

fun syncStores :: "'w platform \<Rightarrow> store list \<Rightarrow> 'w run \<Rightarrow> error option \<times> 'w run" where
  "syncStores P [] s = (None, s)"
| "syncStores P (st # sts) s =
     (case syncStore P st s of
        (Some e, s') \<Rightarrow> (Some e, s')
      | (None, s') \<Rightarrow> syncStores P sts s')"

definition syncCompleted :: response where
  "syncCompleted = \<lparr>statusCode = 200, location = None,
      body = ''{\"message\":\"Product sync completed successfully\"}''\<rparr>"

definition syncFailed :: response where
  "syncFailed = \<lparr>statusCode = 500, location = None,
      body = ''{\"error\":\"Failed to process event\"}''\<rparr>"

text \<open>
  The handler: one \<^verbatim>\<open>try\<close> around both loops, whose \<^verbatim>\<open>catch\<close> logs
  the error and answers 500.
\<close>

definition handler :: "'w platform \<Rightarrow> 'w \<Rightarrow> response \<times> 'w run" where
  "handler P w =
     (case getAllStores P w of
        Inl e \<Rightarrow> (syncFailed, ([LogError e], w))
      | Inr stores \<Rightarrow>
          (case syncStores P stores ([], w) of
             (Some e, s') \<Rightarrow> (syncFailed, (fst s' @ [LogError e], snd s'))
           | (None, s') \<Rightarrow> (syncCompleted, s')))"

subsection \<open>The webhook handler (\<^verbatim>\<open>webhook.mjs\<close>)\<close>

text \<open>
  \<^verbatim>\<open>const { handle, productId } = JSON.parse(event.body)\<close>: the event carries the
  parsed body, \<open>None\<close> when parsing or destructuring throws.
\<close>

record webhookData =
  wh_handle :: "string option"
  wh_productId :: "string option"

definition webhookProcessed :: response where
  "webhookProcessed = \<lparr>statusCode = 200, location = None,
      body = ''{\"message\":\"Webhook processed successfully\"}''\<rparr>"

definition webhookMissing :: response where
  "webhookMissing = \<lparr>statusCode = 400, location = None,
      body = ''{\"error\":\"Missing required parameters\"}''\<rparr>"

definition webhookFailed :: response where
  "webhookFailed = \<lparr>statusCode = 500, location = None,
      body = ''{\"error\":\"Failed to process webhook\"}''\<rparr>"

definition notLinked :: error where
  "notLinked = Error ''BWP installation ID not found for this store''"

text \<open>The \<^verbatim>\<open>catch\<close> of the webhook handler.\<close>

definition webhookCatch :: "error \<Rightarrow> 'w run \<Rightarrow> response \<times> 'w run" where
  "webhookCatch e s = (webhookFailed, (fst s @ [LogError e], snd s))"

definition webhookHandler :: "'w platform \<Rightarrow> 'w \<Rightarrow> webhookData option \<Rightarrow> response \<times> 'w run" where
  "webhookHandler P w parsed =
     (case parsed of
        None \<Rightarrow> webhookCatch (Error ''JSON.parse'') ([], w)
      | Some webhookData \<Rightarrow>
          (if \<not> truthy (wh_handle webhookData) \<or> \<not> truthy (wh_productId webhookData)
           then (webhookMissing, ([], w))
           else
             (let handle = the (wh_handle webhookData);
                  productId = the (wh_productId webhookData)
              in (case getStoreInfo P w handle of
                    Inl e \<Rightarrow> webhookCatch e ([], w)
                  | Inr storeInfo \<Rightarrow>
                      (if \<not> truthy (bwpInstallationId storeInfo)
                       then webhookCatch notLinked ([], w)
                       else
                         (let inst = the (bwpInstallationId storeInfo)
                          in (case getShoplineProduct P w handle productId of
                                Inl e \<Rightarrow> webhookCatch e ([], w)
                              | Inr shoplineProduct \<Rightarrow>
                                  (case getBWPProduct P w inst productId of
                                     Inl e \<Rightarrow> webhookCatch e ([], w)
                                   | Inr bwpProduct \<Rightarrow>
                                       (if compareProducts shoplineProduct bwpProduct
                                        then (case pushThenLog P inst productId shoplineProduct
                                                     (LogUpdated productId handle) ([], w) of
                                                (Some e, s') \<Rightarrow> webhookCatch e s'
                                              | (None, s') \<Rightarrow> (webhookProcessed, s'))
                                        else (webhookProcessed,
                                              ([LogNoUpdate productId handle], w)))))))))))"

subsection \<open>A reference platform\<close>

text \<open>
  A concrete outside world, for running the handlers: the installation table, the two
  catalogs (\<open>None\<close> where the request fails) and the products whose PUT the platform
  rejects. A PUT that succeeds sets the three fields of the product with that id, and adds
  the product when the catalog has none: this is the behaviour of Platform B that the
  handlers count on, and it is an assumption about Platform B, not code of the repository.
\<close>

record world =
  installations :: "store list"
  shoplineCatalog :: "string \<Rightarrow> ProductData list option"
  bwpCatalog :: "string \<Rightarrow> ProductData list option"
  putRejected :: "string \<Rightarrow> string \<Rightarrow> bool"

fun upsert :: "string \<Rightarrow> BWPFormat \<Rightarrow> ProductData list \<Rightarrow> ProductData list" where
  "upsert productId d [] =
     [\<lparr>p_id = productId, title = bwp_title d, description = bwp_description d,
       price = bwp_price d, other_fields = []\<rparr>]"
| "upsert productId d (p # ps) =
     (if p_id p = productId
      then p\<lparr>title := bwp_title d, description := bwp_description d, price := bwp_price d\<rparr> # ps
      else p # upsert productId d ps)"

definition requestFailed :: error where
  "requestFailed = Error ''Request failed''"

definition fetchAll :: "ProductData list option \<Rightarrow> error + ProductData list" where
  "fetchAll c = (case c of None \<Rightarrow> Inl requestFailed | Some ps \<Rightarrow> Inr ps)"

definition fetchOne :: "ProductData list option \<Rightarrow> string \<Rightarrow> error + ProductData" where
  "fetchOne c productId =
     (case c of
        None \<Rightarrow> Inl requestFailed
      | Some ps \<Rightarrow>
          (case find (\<lambda>p. p_id p = productId) ps of
             None \<Rightarrow> Inl requestFailed
           | Some p \<Rightarrow> Inr p))"

definition putProduct :: "world \<Rightarrow> string \<Rightarrow> string \<Rightarrow> BWPFormat \<Rightarrow> error + world" where
  "putProduct w inst productId d =
     (case bwpCatalog w inst of
        None \<Rightarrow> Inl (Error ''BWP token not found'')
      | Some ps \<Rightarrow>
          if putRejected w inst productId then Inl requestFailed
          else Inr (w\<lparr>bwpCatalog := (bwpCatalog w)(inst := Some (upsert productId d ps))\<rparr>))"

definition reference :: "world platform" where
  "reference =
     \<lparr>getAllStores = (\<lambda>w. Inr (installations w)),
      getStoreInfo = (\<lambda>w handle.
        case find (\<lambda>s. store_id s = handle) (installations w) of
          None \<Rightarrow> Inl (Error ''Store information not found'')
        | Some s \<Rightarrow> Inr s),
      getShoplineProducts = (\<lambda>w handle. fetchAll (shoplineCatalog w handle)),
      getShoplineProduct = (\<lambda>w handle productId. fetchOne (shoplineCatalog w handle) productId),
      getBWPProducts = (\<lambda>w inst. fetchAll (bwpCatalog w inst)),
      getBWPProduct = (\<lambda>w inst productId. fetchOne (bwpCatalog w inst) productId),
      updateBWPProduct = putProduct\<rparr>"

subsection \<open>The reconciliation rule in the specification's words\<close>

datatype action = Create | Update | Skipped

text \<open>
  Locate the same id in the Platform-B list; absent: create; present with a differing
  title, description or price: update; otherwise skipped.
\<close>

definition specAction :: "ProductData list \<Rightarrow> ProductData \<Rightarrow> action" where
  "specAction bwpProducts sp =
     (case find (\<lambda>p. p_id p = p_id sp) bwpProducts of
        None \<Rightarrow> Create
      | Some bp \<Rightarrow>
          if title sp = title bp \<and> description sp = description bp \<and> price sp = price bp
          then Skipped else Update)"

text \<open>The console line that stands for an action.\<close>

definition outcomeLine :: "ProductData list \<Rightarrow> string \<Rightarrow> ProductData \<Rightarrow> effect" where
  "outcomeLine bwpProducts handle sp =
     (case specAction bwpProducts sp of
        Create \<Rightarrow> LogCreated (p_id sp) handle
      | Update \<Rightarrow> LogUpdated (p_id sp) handle
      | Skipped \<Rightarrow> LogNoUpdate (p_id sp) handle)"

fun isOutcome :: "effect \<Rightarrow> bool" where
  "isOutcome (LogUpdated _ _) = True"
| "isOutcome (LogCreated _ _) = True"
| "isOutcome (LogNoUpdate _ _) = True"
| "isOutcome _ = False"

fun isPush :: "effect \<Rightarrow> bool" where
  "isPush (CallUpdateBWP _ _ _) = True"
| "isPush _ = False"

definition outcomes :: "effect list \<Rightarrow> effect list" where
  "outcomes tr = filter isOutcome tr"

definition pushes :: "effect list \<Rightarrow> effect list" where
  "pushes tr = filter isPush tr"

text \<open>
  The three fields a PUT sets, as the catalog holds them for a product id (of the first
  product with that id, the one \<^verbatim>\<open>Array.prototype.find\<close> returns).
\<close>

definition fieldsAt :: "ProductData list \<Rightarrow> string \<Rightarrow> (string \<times> string option \<times> rat) option" where
  "fieldsAt B k =
     map_option (\<lambda>bp. (title bp, description bp, price bp)) (find (\<lambda>p. p_id p = k) B)"

definition coreFields :: "ProductData \<Rightarrow> string \<times> string option \<times> rat" where
  "coreFields sp = (title sp, description sp, price sp)"

subsection \<open>Example catalogs and stores\<close>

definition mug :: ProductData where
  "mug = \<lparr>p_id = ''p1'', title = ''Mug'', description = None, price = 999 / 100,
          other_fields = []\<rparr>"

definition cup :: ProductData where
  "cup = \<lparr>p_id = ''p1'', title = ''Cup'', description = None, price = 999 / 100,
          other_fields = []\<rparr>"

definition shop :: "string \<Rightarrow> string option \<Rightarrow> store" where
  "shop handle inst = \<lparr>store_id = handle, bwpInstallationId = inst\<rparr>"

text \<open>Three linked stores; the product request of the second one fails.\<close>

definition threeShops :: world where
  "threeShops =
     \<lparr>installations = [shop ''shop-1'' (Some ''inst-1''), shop ''shop-2'' (Some ''inst-2''),
                        shop ''shop-3'' (Some ''inst-3'')],
      shoplineCatalog = (\<lambda>h. if h = ''shop-2'' then None else Some [mug]),
      bwpCatalog = (\<lambda>i. Some []),
      putRejected = (\<lambda>i k. False)\<rparr>"

text \<open>A linked store and one without a BWP installation, over given catalogs.\<close>

definition oneShop :: "ProductData list \<Rightarrow> ProductData list \<Rightarrow> bool \<Rightarrow> world" where
  "oneShop A B rejected =
     \<lparr>installations = [shop ''shop-1'' (Some ''inst-1''), shop ''shop-4'' None],
      shoplineCatalog = (\<lambda>h. Some A),
      bwpCatalog = (\<lambda>i. Some B),
      putRejected = (\<lambda>i k. rejected)\<rparr>"

definition shop4Webhook :: webhookData where
  "shop4Webhook = \<lparr>wh_handle = Some ''shop-4'', wh_productId = Some ''p1''\<rparr>"

section \<open>The Shopline OAuth callback (\<^verbatim>\<open>shopline-install.mjs\<close>)\<close>

text \<open>
  The module imports \<^verbatim>\<open>SecretsManager\<close> from the DynamoDB client package, which
  does not export it. The model is of the handler's own logic, with both clients in place.
\<close>

text \<open>
  A thrown value as \<^verbatim>\<open>handleCallback\<close>'s \<^verbatim>\<open>catch\<close> reads it: its
  \<^verbatim>\<open>message\<close> and its \<^verbatim>\<open>statusCode\<close>, which an
  \<^verbatim>\<open>Error\<close> made by \<^verbatim>\<open>new Error(...)\<close> does not have.
\<close>

record jsError =
  err_message :: string
  err_statusCode :: "nat option"

definition plainError :: "string \<Rightarrow> jsError" where
  "plainError m = \<lparr>err_message = m, err_statusCode = None\<rparr>"

text \<open>The item \<^verbatim>\<open>handler\<close> puts into the install-state table, keyed by \<open>state\<close>.\<close>

record stateItem =
  si_shop :: string
  si_timestamp :: int
  si_type :: string
  si_expiry :: int

text \<open>The item of the stores table, keyed by \<open>shop\<close>.\<close>

record storeItem =
  accessToken :: string
  refreshToken :: string
  scope :: string
  installedAt :: string
  updatedAt :: string

text \<open>The data of a token response, with the fields the handlers store.\<close>

record tokenResponseData =
  access_token :: string
  refresh_token :: string
  tr_scope :: string

record tables =
  installStateTable :: "string \<Rightarrow> stateItem option"
  storesTable :: "string \<Rightarrow> storeItem option"

text \<open>
  What the callback awaits: Secrets Manager, the token endpoint (by authorization code)
  and the three DynamoDB requests, each of which may throw; and what it reads from its
  surroundings: the clock and \<^verbatim>\<open>APP_URL\<close>.
\<close>

record oauthEnv =
  getSecrets :: "jsError + string \<times> string"
  tokenPost :: "string \<Rightarrow> jsError + tokenResponseData"
  stateGetThrows :: "jsError option"
  storesPutThrows :: "jsError option"
  stateDeleteThrows :: "jsError option"
  isoNow :: string
  appUrl :: string

text \<open>
  \<^verbatim>\<open>event.queryStringParameters\<close> with its \<open>code\<close> and \<open>state\<close>
  (\<open>None\<close> for the whole when the event has no query string, which makes the
  destructuring throw), and \<^verbatim>\<open>event.requestContext?.requestId\<close>.
\<close>

record callbackEvent =
  ev_query :: "(string option \<times> string option) option"
  ev_requestId :: "string option"

text \<open>
  The two shapes of the answer: the 302 with its \<open>Location\<close>, and the JSON error
  of the \<^verbatim>\<open>catch\<close> with status, \<open>error\<close> and \<open>requestId\<close>.
\<close>

datatype callbackResponse =
    Redirect string
  | Failure nat string "string option"

fun isFailure :: "callbackResponse \<Rightarrow> bool" where
  "isFailure (Failure _ _ _) = True"
| "isFailure (Redirect _) = False"

text \<open>\<^verbatim>\<open>error.statusCode || 500\<close> and \<^verbatim>\<open>error.message || 'Installation failed'\<close>.\<close>

definition callbackCatch :: "jsError \<Rightarrow> callbackEvent \<Rightarrow> callbackResponse" where
  "callbackCatch e event =
     Failure (case err_statusCode e of None \<Rightarrow> 500 | Some c \<Rightarrow> if c = 0 then 500 else c)
             (if err_message e = [] then ''Installation failed'' else err_message e)
             (ev_requestId event)"

definition handleCallback :: "oauthEnv \<Rightarrow> tables \<Rightarrow> callbackEvent \<Rightarrow> callbackResponse \<times> tables" where
  "handleCallback env t event =
     (case ev_query event of
        None \<Rightarrow> (callbackCatch (plainError ''Cannot destructure property'') event, t)
      | Some (code, state) \<Rightarrow>
          if \<not> truthy code \<or> \<not> truthy state
          then (callbackCatch (plainError ''Missing required parameters'') event, t)
          else
            (case stateGetThrows env of
               Some e \<Rightarrow> (callbackCatch e event, t)
             | None \<Rightarrow>
                 (case installStateTable t (the state) of
                    None \<Rightarrow> (callbackCatch (plainError ''Invalid state'') event, t)
                  | Some item \<Rightarrow>
                      if si_type item \<noteq> ''shopline_install''
                      then (callbackCatch (plainError ''Invalid state'') event, t)
                      else
                        (case getSecrets env of
                           Inl e \<Rightarrow> (callbackCatch e event, t)
                         | Inr secrets \<Rightarrow>
                             (case tokenPost env (the code) of
                                Inl e \<Rightarrow> (callbackCatch e event, t)
                              | Inr d \<Rightarrow>
                                  (case storesPutThrows env of
                                     Some e \<Rightarrow> (callbackCatch e event, t)
                                   | None \<Rightarrow>
                                       (let t1 = t\<lparr>storesTable := (storesTable t)(si_shop item :=
                                                   Some \<lparr>accessToken = access_token d,
                                                         refreshToken = refresh_token d,
                                                         scope = tr_scope d,
                                                         installedAt = isoNow env,
                                                         updatedAt = isoNow env\<rparr>)\<rparr>
                                        in (case stateDeleteThrows env of
                                              Some e \<Rightarrow> (callbackCatch e event, t1)
                                            | None \<Rightarrow>
                                                (Redirect (appUrl env @ ''?shop='' @ si_shop item),
                                                 t1\<lparr>installStateTable :=
                                                       (installStateTable t1)(the state := None)\<rparr>)))))))))"

subsection \<open>An example installation\<close>

definition pendingInstall :: tables where
  "pendingInstall =
     \<lparr>installStateTable = (\<lambda>s. if s = ''s1''
         then Some \<lparr>si_shop = ''a.myshopline.com'', si_timestamp = 0,
                     si_type = ''shopline_install'', si_expiry = 3600\<rparr>
         else None),
      storesTable = (\<lambda>s. None)\<rparr>"

definition s1Callback :: callbackEvent where
  "s1Callback = \<lparr>ev_query = Some (Some ''code-1'', Some ''s1''), ev_requestId = Some ''r1''\<rparr>"

definition workingEnv :: oauthEnv where
  "workingEnv =
     \<lparr>getSecrets = Inr (''id'', ''secret''),
      tokenPost = (\<lambda>c. Inr \<lparr>access_token = ''at'', refresh_token = ''rt'',
                              tr_scope = ''read_products''\<rparr>),
      stateGetThrows = None, storesPutThrows = None, stateDeleteThrows = None,
      isoNow = ''2024-01-01T00:00:00.000Z'', appUrl = ''https://app.example''\<rparr>"

definition tokenEndpointDown :: oauthEnv where
  "tokenEndpointDown = workingEnv\<lparr>tokenPost := (\<lambda>c. Inl (plainError ''Request failed with status code 400''))\<rparr>"



section \<open>The signed install request (\<^verbatim>\<open>generateSign\<close>, \<^verbatim>\<open>verifySign\<close>)\<close>

text \<open>
  Query parameters: an object with string values, as the list of its own properties. The
  hash primitives of \<^verbatim>\<open>crypto\<close> are parameters: \<open>hmac secret text\<close> is
  \<^verbatim>\<open>createHmac('sha256', secret).update(text).digest('hex')\<close> and \<open>md5 text\<close> is
  \<^verbatim>\<open>createHash('md5').update(text).digest('hex')\<close>.
\<close>

type_synonym params = "(string \<times> string) list"

subsection \<open>The order of an object's keys\<close>

text \<open>
  \<^verbatim>\<open>Object.entries\<close> lists the own properties of an ordinary object in the order of
  OrdinaryOwnPropertyKeys: first the keys that are array indices (canonical decimal
  numerals below \<open>2\<^sup>3\<^sup>2 - 1\<close>) in ascending numeric order, then the other string keys in
  the order they were added.
\<close>

definition isDigit :: "char \<Rightarrow> bool" where
  "isDigit c = (c \<in> set ''0123456789'')"

definition decimalValue :: "string \<Rightarrow> nat" where
  "decimalValue k = foldl (\<lambda>n c. 10 * n + (of_char c - 48)) 0 k"

definition isArrayIndex :: "string \<Rightarrow> bool" where
  "isArrayIndex k =
     (k \<noteq> [] \<and> list_all isDigit k \<and> (k = ''0'' \<or> hd k \<noteq> CHR ''0'') \<and>
      decimalValue k < 4294967295)"

definition ownPropertyKeys :: "string list \<Rightarrow> string list" where
  "ownPropertyKeys added =
     sort_key decimalValue (filter isArrayIndex added) @ filter (\<lambda>k. \<not> isArrayIndex k) added"

subsection \<open>Signing\<close>

fun joinWith :: "string \<Rightarrow> string list \<Rightarrow> string" where
  "joinWith sep [] = []"
| "joinWith sep [x] = x"
| "joinWith sep (x # y # ys) = x @ sep @ joinWith sep (y # ys)"

text \<open>
  \<^verbatim>\<open>Object.keys(params).sort().reduce(...)\<close> assigns the keys to a fresh object in
  sorted order (\<^verbatim>\<open>sort\<close> without a comparator: by code units), and
  \<^verbatim>\<open>Object.entries(sortedParams)\<close> reads them back. The assignment
  \<^verbatim>\<open>acc[key] = params[key]\<close> adds the key as an own property, except for the key
  \<^verbatim>\<open>__proto__\<close>: there it calls the setter of \<^verbatim>\<open>Object.prototype\<close>, which
  ignores a string and adds nothing.
\<close>

definition assignedKeys :: "string list \<Rightarrow> string list" where
  "assignedKeys ks = ownPropertyKeys (filter (\<lambda>k. k \<noteq> ''__proto__'') ks)"

definition sortedParams :: "params \<Rightarrow> params" where
  "sortedParams ps =
     map (\<lambda>k. (k, the (map_of ps k))) (assignedKeys (sort (map fst ps)))"

definition signString :: "params \<Rightarrow> string" where
  "signString ps = joinWith ''&'' (map (\<lambda>(key, val). key @ ''='' @ val) (sortedParams ps))"

text \<open>The variant of the install handler (HMAC-SHA256).\<close>

definition generateSign :: "(string \<Rightarrow> string \<Rightarrow> string) \<Rightarrow> params \<Rightarrow> string \<Rightarrow> string" where
  "generateSign hmac ps secret = hmac secret (signString ps)"

text \<open>The variant of the callback and refresh handlers (MD5 of the text followed by the secret).\<close>

definition generateSignMd5 :: "(string \<Rightarrow> string) \<Rightarrow> params \<Rightarrow> string \<Rightarrow> string" where
  "generateSignMd5 md5 ps secret = md5 (signString ps @ secret)"

text \<open>\<^verbatim>\<open>const { sign, ...rest } = params\<close>.\<close>

definition restOf :: "params \<Rightarrow> params" where
  "restOf ps = filter (\<lambda>(key, val). key \<noteq> ''sign'') ps"

definition verifySign :: "(string \<Rightarrow> string \<Rightarrow> string) \<Rightarrow> params \<Rightarrow> string \<Rightarrow> bool" where
  "verifySign hmac ps secret = (map_of ps ''sign'' = Some (generateSign hmac (restOf ps) secret))"

definition verifySignMd5 :: "(string \<Rightarrow> string) \<Rightarrow> params \<Rightarrow> string \<Rightarrow> bool" where
  "verifySignMd5 md5 ps secret = (map_of ps ''sign'' = Some (generateSignMd5 md5 (restOf ps) secret))"

subsection \<open>The install handler\<close>

record installationItem =
  in_status :: string
  in_appkey :: string
  in_timestamp :: string

text \<open>
  The collaborators of the install handler: the credentials \<open>(appKey, appSecret)\<close> from
  Secrets Manager, the write to the installation table, and the text of the authorize URL,
  built from the handle and the app key.
\<close>

record installEnv =
  hmacSha256 :: "string \<Rightarrow> string \<Rightarrow> string"
  getShoplineCredentials :: "error + string \<times> string"
  putItemThrows :: "error option"
  authUrl :: "string \<Rightarrow> string \<Rightarrow> string"

definition missingParameters :: response where
  "missingParameters = \<lparr>statusCode = 400, location = None,
      body = ''{\"error\":\"Missing required parameters\"}''\<rparr>"

definition invalidSignature :: response where
  "invalidSignature = \<lparr>statusCode = 401, location = None,
      body = ''{\"error\":\"Invalid signature\"}''\<rparr>"

definition installationFailed :: response where
  "installationFailed = \<lparr>statusCode = 500, location = None,
      body = ''{\"error\":\"Installation failed\"}''\<rparr>"

definition installHandler ::
  "installEnv \<Rightarrow> (string \<Rightarrow> installationItem option) \<Rightarrow> params
     \<Rightarrow> response \<times> (string \<Rightarrow> installationItem option)" where
  "installHandler env table ps =
     (if \<not> truthy (map_of ps ''appkey'') \<or> \<not> truthy (map_of ps ''handle'') \<or>
         \<not> truthy (map_of ps ''timestamp'') \<or> \<not> truthy (map_of ps ''sign'')
      then (missingParameters, table)
      else
        case getShoplineCredentials env of
          Inl e \<Rightarrow> (installationFailed, table)
        | Inr (appKey, appSecret) \<Rightarrow>
            if \<not> verifySign (hmacSha256 env) ps appSecret then (invalidSignature, table)
            else
              (case putItemThrows env of
                 Some e \<Rightarrow> (installationFailed, table)
               | None \<Rightarrow>
                   let handle = the (map_of ps ''handle'') in
                   (\<lparr>statusCode = 302, location = Some (authUrl env handle appKey), body = []\<rparr>,
                    table(handle := Some \<lparr>in_status = ''installing'',
                                           in_appkey = the (map_of ps ''appkey''),
                                           in_timestamp = the (map_of ps ''timestamp'')\<rparr>))))"

subsection \<open>The canonical text in the specification's words\<close>

text \<open>Sort the parameter keys lexicographically, join them as \<open>key=value\<close> pairs with \<open>&\<close>.\<close>

definition specSignString :: "params \<Rightarrow> string" where
  "specSignString ps =
     joinWith ''&'' (map (\<lambda>k. k @ ''='' @ the (map_of ps k)) (sort (map fst ps)))"

subsection \<open>An example request\<close>

definition numericKeys :: params where
  "numericKeys = [(''appkey'', ''k''), (''handle'', ''shop''), (''timestamp'', ''1''),
                  (''10'', ''a''), (''9'', ''b'')]"

text \<open>A stand-in for the keyed hash in examples: the secret, a colon, the text.\<close>

definition toyHmac :: "string \<Rightarrow> string \<Rightarrow> string" where
  "toyHmac secret text = secret @ '':'' @ text"

section \<open>The token refresh sweep (\<^verbatim>\<open>refresh.mjs\<close>)\<close>

text \<open>
  An entry of \<^verbatim>\<open>credentials.tokens\<close>, as the callback handler stores it. Times are
  milliseconds since the epoch.
\<close>

record tokenData =
  td_accessToken :: string
  td_refreshToken :: string
  expiresAt :: int

text \<open>The JSON of a refresh response that was \<^verbatim>\<open>ok\<close>.\<close>

record newTokenData =
  new_access_token :: string
  new_refresh_token :: string
  expires_in :: int

text \<open>
  What the sweep awaits and reads. \<^verbatim>\<open>credentials.tokens\<close> is an object: the list of
  its entries, in the order \<^verbatim>\<open>Object.entries\<close> gives them, has no handle twice.
  \<open>checkTime handle\<close> is what \<^verbatim>\<open>Date.now()\<close> returns at the expiry check of that
  handle, \<open>storeTime handle\<close> what it returns when the new expiry is computed.
  \<open>refreshCall handle refresh_token\<close> is the POST to the refresh endpoint with the
  response parsed: \<open>Inl\<close> when \<^verbatim>\<open>fetch\<close> throws or the response is not
  \<^verbatim>\<open>ok\<close>.
\<close>

record refreshEnv =
  getCredentials :: "error + (string \<times> tokenData) list option"
  checkTime :: "string \<Rightarrow> int"
  storeTime :: "string \<Rightarrow> int"
  refreshCall :: "string \<Rightarrow> string \<Rightarrow> error + newTokenData"
  updateItemThrows :: "string \<Rightarrow> error option"
  putSecretThrows :: "error option"

text \<open>
  The state of the loop: the \<^verbatim>\<open>tokens\<close> object it mutates, the handles it sent a
  refresh request for, the handles whose installation item it updated, and the errors its
  inner \<^verbatim>\<open>catch\<close> logged.
\<close>

record sweep =
  tokens :: "(string \<times> tokenData) list"
  requested :: "string list"
  itemsUpdated :: "string list"
  logged :: "(string \<times> error) list"

definition renewalWindow :: int where
  "renewalWindow = 24 * 60 * 60 * 1000"

text \<open>\<^verbatim>\<open>tokens[handle] = {...}\<close> for a handle that is a key of the object.\<close>

definition assign :: "string \<Rightarrow> tokenData \<Rightarrow> (string \<times> tokenData) list \<Rightarrow> (string \<times> tokenData) list" where
  "assign handle d ts = map (\<lambda>(h, old). if h = handle then (h, d) else (h, old)) ts"

text \<open>One turn of the loop, lines 458 to 526, with its own \<^verbatim>\<open>try\<close>.\<close>

definition refreshOne :: "refreshEnv \<Rightarrow> string \<times> tokenData \<Rightarrow> sweep \<Rightarrow> sweep" where
  "refreshOne env entry s =
     (let handle = fst entry; tokenData = snd entry
      in (if expiresAt tokenData > checkTime env handle + renewalWindow then s
          else
            (let s1 = s\<lparr>requested := requested s @ [handle]\<rparr>
             in (case refreshCall env handle (td_refreshToken tokenData) of
                   Inl e \<Rightarrow> s1\<lparr>logged := logged s1 @ [(handle, e)]\<rparr>
                 | Inr n \<Rightarrow>
                     (let s2 = s1\<lparr>tokens := assign handle
                                   \<lparr>td_accessToken = new_access_token n,
                                    td_refreshToken = new_refresh_token n,
                                    expiresAt = storeTime env handle + expires_in n * 1000\<rparr>
                                   (tokens s1)\<rparr>
                      in (case updateItemThrows env handle of
                            Some e \<Rightarrow> s2\<lparr>logged := logged s2 @ [(handle, e)]\<rparr>
                          | None \<Rightarrow> s2\<lparr>itemsUpdated := itemsUpdated s2 @ [handle]\<rparr>))))))"

text \<open>The loop over \<^verbatim>\<open>Object.entries(tokens)\<close>, taken once before the first turn.\<close>

fun refreshAll :: "refreshEnv \<Rightarrow> (string \<times> tokenData) list \<Rightarrow> sweep \<Rightarrow> sweep" where
  "refreshAll env [] s = s"
| "refreshAll env (entry # entries) s = refreshAll env entries (refreshOne env entry s)"

definition refreshCompleted :: response where
  "refreshCompleted = \<lparr>statusCode = 200, location = None,
      body = ''{\"message\":\"Token refresh completed\"}''\<rparr>"

definition nothingToRefresh :: response where
  "nothingToRefresh = \<lparr>statusCode = 200, location = None,
      body = ''{\"message\":\"No tokens to refresh\"}''\<rparr>"

definition refreshFailed :: response where
  "refreshFailed = \<lparr>statusCode = 500, location = None,
      body = ''{\"error\":\"Token refresh failed\"}''\<rparr>"

text \<open>
  The handler: its answer, the sweep it made, and the tokens it saved to the secret
  (\<open>None\<close> when it saved nothing).
\<close>

definition refreshHandler ::
  "refreshEnv \<Rightarrow> response \<times> sweep option \<times> (string \<times> tokenData) list option" where
  "refreshHandler env =
     (case getCredentials env of
        Inl e \<Rightarrow> (refreshFailed, None, None)
      | Inr None \<Rightarrow> (nothingToRefresh, None, None)
      | Inr (Some ts) \<Rightarrow>
          (let s = refreshAll env ts
                     \<lparr>tokens = ts, requested = [], itemsUpdated = [], logged = []\<rparr>
           in (case putSecretThrows env of
                 Some e \<Rightarrow> (refreshFailed, Some s, None)
               | None \<Rightarrow> (refreshCompleted, Some s, Some (tokens s)))))"

text \<open>
  An entry is due when its expiry is not later than the renewal window after the check;
  \<open>afterSweep\<close> is the entry a sweep leaves for it.
\<close>

definition due :: "refreshEnv \<Rightarrow> string \<times> tokenData \<Rightarrow> bool" where
  "due env entry = (expiresAt (snd entry) \<le> checkTime env (fst entry) + renewalWindow)"

definition afterSweep :: "refreshEnv \<Rightarrow> string \<times> tokenData \<Rightarrow> tokenData" where
  "afterSweep env entry =
     (if due env entry
      then case refreshCall env (fst entry) (td_refreshToken (snd entry)) of
             Inl e \<Rightarrow> snd entry
           | Inr n \<Rightarrow> \<lparr>td_accessToken = new_access_token n,
                       td_refreshToken = new_refresh_token n,
                       expiresAt = storeTime env (fst entry) + expires_in n * 1000\<rparr>
      else snd entry)"

subsection \<open>An example sweep\<close>

definition hour :: int where
  "hour = 60 * 60 * 1000"

definition exampleTokens :: "(string \<times> tokenData) list" where
  "exampleTokens =
     [(''soon'', \<lparr>td_accessToken = ''a1'', td_refreshToken = ''r1'', expiresAt = 2 * hour\<rparr>),
      (''broken'', \<lparr>td_accessToken = ''a2'', td_refreshToken = ''r2'', expiresAt = 3 * hour\<rparr>),
      (''late'', \<lparr>td_accessToken = ''a3'', td_refreshToken = ''r3'', expiresAt = 48 * hour\<rparr>),
      (''last'', \<lparr>td_accessToken = ''a4'', td_refreshToken = ''r4'', expiresAt = 24 * hour\<rparr>)]"

text \<open>The refresh endpoint of the store \<open>broken\<close> answers with an error.\<close>

definition exampleSweepEnv :: refreshEnv where
  "exampleSweepEnv =
     \<lparr>getCredentials = Inr (Some exampleTokens),
      checkTime = (\<lambda>h. 0),
      storeTime = (\<lambda>h. 1000),
      refreshCall = (\<lambda>h r. if h = ''broken'' then Inl (Error ''Failed to refresh token'')
                             else Inr \<lparr>new_access_token = ''new-'' @ h,
                                       new_refresh_token = r, expires_in = 36000\<rparr>),
      updateItemThrows = (\<lambda>h. None),
      putSecretThrows = None\<rparr>"

section \<open>The Buy with Prime endpoints\<close>

text \<open>
  An HTTP event as the BWP handlers read it: the query parameters and the headers (each
  \<open>None\<close> when the event has none), the path and the body.
\<close>

record bwpEvent =
  queryStringParameters :: "params option"
  headers :: "params option"
  rawPath :: string
  eventBody :: "string option"

text \<open>The claims of a verified token that the handlers read.\<close>

record verificationPayload =
  requestHash :: "string option"
  installationId :: "string option"

record bwpStateItem =
  codeVerifier :: string
  createdAt :: int

record bwpTokenItem =
  updated_at :: int
  token :: string
  bwp_refresh_token :: string

record bwpTables =
  bwpStateTable :: "string \<Rightarrow> bwpStateItem option"
  bwpTokenStore :: "string \<Rightarrow> bwpTokenItem option"

text \<open>
  The collaborators. \<open>jwtVerify token\<close> is \<^verbatim>\<open>jwt.verify(token, BWP_PUBLIC_KEY)\<close>,
  \<open>None\<close> when it throws; \<open>sha256\<close> is the hex digest; \<open>jsonString\<close> is
  \<^verbatim>\<open>JSON.stringify\<close> of a string.
\<close>

record bwpEnv =
  jwtVerify :: "string \<Rightarrow> verificationPayload option"
  sha256 :: "string \<Rightarrow> string"
  jsonString :: "string \<Rightarrow> string"
  stateGetFails :: "error option"
  getBWPCredentials :: "error + string \<times> string"
  bwpTokenPost :: "string option \<Rightarrow> string \<Rightarrow> error + tokenResponseData"
  tokenPutFails :: "error option"
  nowSeconds :: int

text \<open>
  The module of the BWP handlers imports \<^verbatim>\<open>DynamoDBDocumentClient\<close> and
  \<^verbatim>\<open>PutCommand\<close> from \<^verbatim>\<open>@aws-sdk/lib-dynamodb\<close> and nothing else (line 568),
  and declares no \<^verbatim>\<open>GetCommand\<close>. Evaluating that name, as
  \<^verbatim>\<open>new GetCommand(...)\<close> at line 753 does, throws a ReferenceError.
\<close>

definition getCommandLookup :: "error + unit" where
  "getCommandLookup = Inl (Error ''GetCommand is not defined'')"

subsection \<open>String functions of JavaScript\<close>

text \<open>\<^verbatim>\<open>s.indexOf(pat)\<close>, \<open>None\<close> for \<open>-1\<close>.\<close>

fun indexOf :: "string \<Rightarrow> string \<Rightarrow> nat option" where
  "indexOf [] pat = (if pat = [] then Some 0 else None)"
| "indexOf (c # cs) pat =
     (if take (length pat) (c # cs) = pat then Some 0 else map_option Suc (indexOf cs pat))"

definition includesStr :: "string \<Rightarrow> string \<Rightarrow> bool" where
  "includesStr s pat = (indexOf s pat \<noteq> None)"

subsection \<open>The verification token\<close>

text \<open>
  \<^verbatim>\<open>url.substring(0, url.indexOf("verification-token=") - 1)\<close>: a negative end is
  taken as 0.
\<close>

definition calculateRequestHash :: "bwpEnv \<Rightarrow> bwpEvent \<Rightarrow> error + string" where
  "calculateRequestHash env event =
     (case headers event of
        None \<Rightarrow> Inl (Error ''Cannot read properties of undefined'')
      | Some hs \<Rightarrow>
          let host = (case map_of hs ''Host'' of None \<Rightarrow> ''undefined'' | Some h \<Rightarrow> h);
              url = ''https://'' @ host @ rawPath event;
              url' = (if includesStr url ''verification-token''
                      then (case indexOf url ''verification-token='' of
                              None \<Rightarrow> []
                            | Some i \<Rightarrow> take (i - 1) url)
                      else url);
              bodyHash = (if truthy (eventBody event) then sha256 env (the (eventBody event))
                          else [])
          in Inr (sha256 env (url' @ bodyHash)))"

definition missingToken :: error where
  "missingToken = Error ''Missing Verification Token''"

definition invalidToken :: error where
  "invalidToken = Error ''invalid signature''"

definition hashMismatch :: error where
  "hashMismatch = Error ''Actual request hash does not match the expected hash''"

text \<open>\<^verbatim>\<open>query?.["verification-token"] || headers?.["verification-token"]\<close>.\<close>

definition verificationToken :: "bwpEvent \<Rightarrow> string option" where
  "verificationToken event =
     (let q = (case queryStringParameters event of
                 None \<Rightarrow> None | Some ps \<Rightarrow> map_of ps ''verification-token'')
      in if truthy q then q
         else (case headers event of
                 None \<Rightarrow> None | Some hs \<Rightarrow> map_of hs ''verification-token''))"

definition validateVerificationToken :: "bwpEnv \<Rightarrow> bwpEvent \<Rightarrow> error + verificationPayload" where
  "validateVerificationToken env event =
     (let tok = verificationToken event in
      if \<not> truthy tok then Inl missingToken
      else
        case jwtVerify env (the tok) of
          None \<Rightarrow> Inl invalidToken
        | Some payload \<Rightarrow>
            (case calculateRequestHash env event of
               Inl e \<Rightarrow> Inl e
             | Inr actualHash \<Rightarrow>
                 if requestHash payload \<noteq> Some actualHash then Inl hashMismatch
                 else Inr payload))"

subsection \<open>The handlers\<close>

definition bwpInstalled :: response where
  "bwpInstalled = \<lparr>statusCode = 200, location = None,
      body = ''{\"message\":\"BWP installation successful\"}''\<rparr>"

definition bwpInstallFailed :: response where
  "bwpInstallFailed = \<lparr>statusCode = 500, location = None,
      body = ''{\"message\":\"BWP installation failed\"}''\<rparr>"

definition bwpSettingsFailed :: response where
  "bwpSettingsFailed = \<lparr>statusCode = 500, location = None,
      body = ''{\"message\":\"Failed to retrieve BWP settings\"}''\<rparr>"

definition bwpUninstalled :: response where
  "bwpUninstalled = \<lparr>statusCode = 200, location = None,
      body = ''{\"message\":\"BWP uninstallation successful\"}''\<rparr>"

definition bwpUninstallFailed :: response where
  "bwpUninstallFailed = \<lparr>statusCode = 500, location = None,
      body = ''{\"message\":\"BWP uninstallation failed\"}''\<rparr>"

text \<open>
  The part of \<^verbatim>\<open>handleBWPInstall\<close> after the token is verified, lines 749 to 790; an
  \<open>Inl\<close> is an exception on its way to the \<^verbatim>\<open>catch\<close>. The lookup of the state
  item comes first and throws, so the steps after it are written out as the source has
  them and are never reached. No step deletes the state item.
\<close>

definition exchangeAndStore ::
  "bwpEnv \<Rightarrow> bwpTables \<Rightarrow> bwpEvent \<Rightarrow> verificationPayload \<Rightarrow> error + bwpTables" where
  "exchangeAndStore env t event tokenPayload =
     (case queryStringParameters event of
        None \<Rightarrow> Inl (Error ''Cannot read properties of undefined'')
      | Some ps \<Rightarrow>
          (let authCode = map_of ps ''code''; state = map_of ps ''state''
           in (case getCommandLookup of
                 Inl e \<Rightarrow> Inl e
               | Inr found \<Rightarrow>
                 (case stateGetFails env of
                    Some e \<Rightarrow> Inl e
                  | None \<Rightarrow>
                      (case state of
                         None \<Rightarrow> Inl (Error ''The key is undefined'')
                       | Some st \<Rightarrow>
                           (case bwpStateTable t st of
                              None \<Rightarrow> Inl (Error ''Invalid state'')
                            | Some item \<Rightarrow>
                                (case getBWPCredentials env of
                                   Inl e \<Rightarrow> Inl e
                                 | Inr credentials \<Rightarrow>
                                     (case bwpTokenPost env authCode (codeVerifier item) of
                                        Inl e \<Rightarrow> Inl e
                                      | Inr d \<Rightarrow>
                                          (case tokenPutFails env of
                                             Some e \<Rightarrow> Inl e
                                           | None \<Rightarrow>
                                               (case installationId tokenPayload of
                                                  None \<Rightarrow> Inl (Error ''The key is undefined'')
                                                | Some iid \<Rightarrow>
                                                    Inr (t\<lparr>bwpTokenStore := (bwpTokenStore t)(iid :=
                                                           Some \<lparr>updated_at = nowSeconds env,
                                                                 token = access_token d,
                                                                 bwp_refresh_token = refresh_token d\<rparr>)\<rparr>)))))))))))"

definition handleBWPInstall :: "bwpEnv \<Rightarrow> bwpTables \<Rightarrow> bwpEvent \<Rightarrow> response \<times> bwpTables" where
  "handleBWPInstall env t event =
     (case validateVerificationToken env event of
        Inl e \<Rightarrow> (bwpInstallFailed, t)
      | Inr tokenPayload \<Rightarrow>
          (case exchangeAndStore env t event tokenPayload of
             Inl e \<Rightarrow> (bwpInstallFailed, t)
           | Inr t' \<Rightarrow> (bwpInstalled, t')))"

definition handleBWPSettings :: "bwpEnv \<Rightarrow> bwpEvent \<Rightarrow> response" where
  "handleBWPSettings env event =
     (case validateVerificationToken env event of
        Inl e \<Rightarrow> bwpSettingsFailed
      | Inr payload \<Rightarrow>
          \<lparr>statusCode = 200, location = None,
           body = (case installationId payload of
                     None \<Rightarrow> ''{}''
                   | Some iid \<Rightarrow> ''{\"installationId\":'' @ jsonString env iid @ ''}'')\<rparr>)"

definition handleBWPUninstall :: "bwpEnv \<Rightarrow> bwpEvent \<Rightarrow> response" where
  "handleBWPUninstall env event =
     (case validateVerificationToken env event of
        Inl e \<Rightarrow> bwpUninstallFailed
      | Inr payload \<Rightarrow> bwpUninstalled)"

subsection \<open>An example installation\<close>

text \<open>
  A stand-in for the digest, and a verifier that accepts two tokens: \<open>good\<close>, whose
  \<open>requestHash\<close> is that of the install request below, and \<open>stale\<close>, signed for
  another request.
\<close>

definition toySha :: "string \<Rightarrow> string" where
  "toySha s = ''#'' @ s"

definition toyVerify :: "string \<Rightarrow> verificationPayload option" where
  "toyVerify tok =
     (if tok = ''good''
      then Some \<lparr>requestHash = Some ''#https://app.example/bwp/install'',
                  installationId = Some ''i-1''\<rparr>
      else if tok = ''stale''
      then Some \<lparr>requestHash = Some ''#https://app.example/bwp/other'',
                  installationId = Some ''i-1''\<rparr>
      else None)"

definition bwpExample :: bwpEnv where
  "bwpExample =
     \<lparr>jwtVerify = toyVerify, sha256 = toySha, jsonString = (\<lambda>s. ''\"'' @ s @ ''\"''),
      stateGetFails = None,
      getBWPCredentials = Inr (''id'', ''secret''),
      bwpTokenPost = (\<lambda>c v. Inr \<lparr>access_token = ''at'', refresh_token = ''rt'',
                                   tr_scope = []\<rparr>),
      tokenPutFails = None, nowSeconds = 1700000000\<rparr>"

definition installRequest :: "string \<Rightarrow> bwpEvent" where
  "installRequest tok =
     \<lparr>queryStringParameters = Some [(''verification-token'', tok), (''code'', ''c-1''),
                                      (''state'', ''0.5'')],
      headers = Some [(''Host'', ''app.example'')],
      rawPath = ''/bwp/install'',
      eventBody = None\<rparr>"

definition launched :: bwpTables where
  "launched =
     \<lparr>bwpStateTable = (\<lambda>s. if s = ''0.5'' then Some \<lparr>codeVerifier = ''v'', createdAt = 0\<rparr>
                            else None),
      bwpTokenStore = (\<lambda>i. None)\<rparr>"

section \<open>Properties of the synchronisation handlers\<close>

subsection \<open>The decision for one product\<close>

lemma pushThenLog_trace:
  "pushThenLog P inst pid sp line (tr, w) = (r, (tr', w')) \<Longrightarrow>
     tr' = tr @ CallUpdateBWP inst pid (convertToBWPFormat sp) # (if r = None then [line] else [])"
  by (auto simp: pushThenLog_def Let_def split: sum.splits)

lemma syncProduct_specAction:
  "syncProduct P handle inst bwpProducts sp s =
     (case specAction bwpProducts sp of
        Create \<Rightarrow> pushThenLog P inst (p_id sp) sp (LogCreated (p_id sp) handle) s
      | Update \<Rightarrow> pushThenLog P inst (p_id sp) sp (LogUpdated (p_id sp) handle) s
      | Skipped \<Rightarrow> (None, (fst s @ [LogNoUpdate (p_id sp) handle], snd s)))"
  by (auto simp: syncProduct_def specAction_def compareProducts_def Let_def split: option.splits)

lemma syncProduct_trace:
  "syncProduct P handle inst B sp (tr, w) = (r, (tr', w')) \<Longrightarrow>
     tr' = tr @ (if specAction B sp = Skipped then [] else [CallUpdateBWP inst (p_id sp) (convertToBWPFormat sp)])
              @ (if r = None then [outcomeLine B handle sp] else [])"
  by (cases "specAction B sp")
     (auto simp: syncProduct_specAction outcomeLine_def dest: pushThenLog_trace split: if_splits)

lemma find_other_fields:
  "find (\<lambda>p. p_id p = k) (map (other_fields_update f) B) = map_option (other_fields_update f) (find (\<lambda>p. p_id p = k) B)"
  by (induction B) auto

lemma specAction_ignores:
  "specAction (map (other_fields_update f) B) (other_fields_update g sp) = specAction B sp"
  by (auto simp: specAction_def find_other_fields split: option.splits)

text \<open>
  C1. For every store and every product of the Shopline list, the loop body takes exactly
  one of three branches, the one the specification's rule names. No product with the same
  id in the BWP list (create), or one whose title, description or price differs (update):
  it calls \<^verbatim>\<open>updateBWPProduct\<close> of the platform, for that installation and product
  id, with the title, description and price of the Shopline product; when the call returns,
  the world is the one the call left and the line \<^verbatim>\<open>Created\<close> or
  \<^verbatim>\<open>Updated\<close> is written, and when it throws, the exception goes on. Otherwise
  (skipped): no call, the world is unchanged and \<^verbatim>\<open>No update needed\<close> is written.
  The decision reads nothing but the id and the three fields: changing any other field of
  either product leaves it unchanged.
\<close>

theorem reconcile_rule:
  "syncProduct P handle inst bwpProducts sp (tr, w) =
     (case specAction bwpProducts sp of
        Create \<Rightarrow>
          (case updateBWPProduct P w inst (p_id sp)
                  \<lparr>bwp_title = title sp, bwp_description = description sp,
                   bwp_price = price sp\<rparr> of
             Inl e \<Rightarrow>
               (Some e,
                (tr @ [CallUpdateBWP inst (p_id sp)
                         \<lparr>bwp_title = title sp, bwp_description = description sp,
                          bwp_price = price sp\<rparr>], w))
           | Inr w' \<Rightarrow>
               (None,
                (tr @ [CallUpdateBWP inst (p_id sp)
                         \<lparr>bwp_title = title sp, bwp_description = description sp,
                          bwp_price = price sp\<rparr>,
                       LogCreated (p_id sp) handle], w')))
      | Update \<Rightarrow>
          (case updateBWPProduct P w inst (p_id sp)
                  \<lparr>bwp_title = title sp, bwp_description = description sp,
                   bwp_price = price sp\<rparr> of
             Inl e \<Rightarrow>
               (Some e,
                (tr @ [CallUpdateBWP inst (p_id sp)
                         \<lparr>bwp_title = title sp, bwp_description = description sp,
                          bwp_price = price sp\<rparr>], w))
           | Inr w' \<Rightarrow>
               (None,
                (tr @ [CallUpdateBWP inst (p_id sp)
                         \<lparr>bwp_title = title sp, bwp_description = description sp,
                          bwp_price = price sp\<rparr>,
                       LogUpdated (p_id sp) handle], w')))
      | Skipped \<Rightarrow> (None, (tr @ [LogNoUpdate (p_id sp) handle], w)))
   \<and> pushes (fst (snd (syncProduct P handle inst bwpProducts sp (tr, w)))) =
       pushes tr @ (if specAction bwpProducts sp = Skipped then []
                    else [CallUpdateBWP inst (p_id sp)
                            \<lparr>bwp_title = title sp, bwp_description = description sp,
                             bwp_price = price sp\<rparr>])
   \<and> specAction (map (other_fields_update f) bwpProducts) (other_fields_update g sp) =
       specAction bwpProducts sp"
proof -
  have rule: "syncProduct P handle inst bwpProducts sp (tr, w) =
     (case specAction bwpProducts sp of
        Create \<Rightarrow>
          (case updateBWPProduct P w inst (p_id sp)
                  \<lparr>bwp_title = title sp, bwp_description = description sp,
                   bwp_price = price sp\<rparr> of
             Inl e \<Rightarrow>
               (Some e,
                (tr @ [CallUpdateBWP inst (p_id sp)
                         \<lparr>bwp_title = title sp, bwp_description = description sp,
                          bwp_price = price sp\<rparr>], w))
           | Inr w' \<Rightarrow>
               (None,
                (tr @ [CallUpdateBWP inst (p_id sp)
                         \<lparr>bwp_title = title sp, bwp_description = description sp,
                          bwp_price = price sp\<rparr>,
                       LogCreated (p_id sp) handle], w')))
      | Update \<Rightarrow>
          (case updateBWPProduct P w inst (p_id sp)
                  \<lparr>bwp_title = title sp, bwp_description = description sp,
                   bwp_price = price sp\<rparr> of
             Inl e \<Rightarrow>
               (Some e,
                (tr @ [CallUpdateBWP inst (p_id sp)
                         \<lparr>bwp_title = title sp, bwp_description = description sp,
                          bwp_price = price sp\<rparr>], w))
           | Inr w' \<Rightarrow>
               (None,
                (tr @ [CallUpdateBWP inst (p_id sp)
                         \<lparr>bwp_title = title sp, bwp_description = description sp,
                          bwp_price = price sp\<rparr>,
                       LogUpdated (p_id sp) handle], w')))
      | Skipped \<Rightarrow> (None, (tr @ [LogNoUpdate (p_id sp) handle], w)))"
    by (simp add: syncProduct_specAction pushThenLog_def convertToBWPFormat_def Let_def
        split: action.splits sum.splits)
  have "pushes (fst (snd (syncProduct P handle inst bwpProducts sp (tr, w)))) =
       pushes tr @ (if specAction bwpProducts sp = Skipped then []
                    else [CallUpdateBWP inst (p_id sp)
                            \<lparr>bwp_title = title sp, bwp_description = description sp,
                             bwp_price = price sp\<rparr>])"
    unfolding rule by (simp add: pushes_def split: action.splits sum.splits)
  with rule show ?thesis
    by (simp only: specAction_ignores simp_thms)
qed

text \<open>
  On the reference platform: a mug that Platform B lacks is created there, and a product
  that Platform B holds under another title is overwritten with the Shopline title.
\<close>

theorem reconcile_rule_witness:
  "specAction [] mug = Create \<and> specAction [cup] mug = Update \<and> specAction [mug] mug = Skipped \<and>
   fst (syncProduct reference ''shop-1'' ''inst-1'' [] mug ([], oneShop [mug] [] False)) = None \<and>
   fst (snd (syncProduct reference ''shop-1'' ''inst-1'' [] mug ([], oneShop [mug] [] False))) =
     [CallUpdateBWP ''inst-1'' ''p1''
        \<lparr>bwp_title = ''Mug'', bwp_description = None, bwp_price = 999 / 100\<rparr>,
      LogCreated ''p1'' ''shop-1''] \<and>
   bwpCatalog (snd (snd (syncProduct reference ''shop-1'' ''inst-1'' [] mug
                           ([], oneShop [mug] [] False)))) ''inst-1'' = Some [mug] \<and>
   fst (snd (syncProduct reference ''shop-1'' ''inst-1'' [cup] mug ([], oneShop [mug] [cup] False))) =
     [CallUpdateBWP ''inst-1'' ''p1''
        \<lparr>bwp_title = ''Mug'', bwp_description = None, bwp_price = 999 / 100\<rparr>,
      LogUpdated ''p1'' ''shop-1''] \<and>
   bwpCatalog (snd (snd (syncProduct reference ''shop-1'' ''inst-1'' [cup] mug
                           ([], oneShop [mug] [cup] False)))) ''inst-1'' = Some [mug] \<and>
   syncProduct reference ''shop-1'' ''inst-1'' [mug] mug ([], oneShop [mug] [mug] False) =
     (None, ([LogNoUpdate ''p1'' ''shop-1''], oneShop [mug] [mug] False))"
proof -
  have a: "specAction [] mug = Create" "specAction [cup] mug = Update"
    "specAction [mug] mug = Skipped"
    by (simp_all add: specAction_def mug_def cup_def)
  have put: "updateBWPProduct reference (oneShop [mug] B False) ''inst-1'' (p_id mug)
               \<lparr>bwp_title = title mug, bwp_description = description mug,
                bwp_price = price mug\<rparr> =
             Inr ((oneShop [mug] B False)\<lparr>bwpCatalog :=
                    (bwpCatalog (oneShop [mug] B False))(''inst-1'' :=
                       Some (upsert (p_id mug)
                               \<lparr>bwp_title = title mug, bwp_description = description mug,
                                bwp_price = price mug\<rparr> B))\<rparr>)" for B
    by (simp add: reference_def putProduct_def oneShop_def)
  have up: "upsert (p_id mug) \<lparr>bwp_title = title mug, bwp_description = description mug,
                bwp_price = price mug\<rparr> [] = [mug]"
    "upsert (p_id mug) \<lparr>bwp_title = title mug, bwp_description = description mug,
                bwp_price = price mug\<rparr> [cup] = [mug]"
    by (simp_all add: mug_def cup_def)
  show ?thesis
    using reconcile_rule [of reference "''shop-1''" "''inst-1''" "[]" mug "[]"
            "oneShop [mug] [] False" id id]
          reconcile_rule [of reference "''shop-1''" "''inst-1''" "[cup]" mug "[]"
            "oneShop [mug] [cup] False" id id]
          reconcile_rule [of reference "''shop-1''" "''inst-1''" "[mug]" mug "[]"
            "oneShop [mug] [mug] False" id id]
    by (simp add: a put up) (simp add: mug_def cup_def)
qed

text \<open>
  Over a whole list: a pass that no exception ended has called
  \<^verbatim>\<open>updateBWPProduct\<close> once for each product whose action is not skipped, in list
  order, and for no other.
\<close>

lemma syncProducts_pushes:
  assumes "syncProducts P handle inst B A (tr, w) = (None, (tr', w'))"
  shows "pushes tr' =
           pushes tr @ map (\<lambda>sp. CallUpdateBWP inst (p_id sp) (convertToBWPFormat sp))
                           (filter (\<lambda>sp. specAction B sp \<noteq> Skipped) A)"
  using assms
proof (induction A arbitrary: tr w)
  case Nil
  then show ?case by simp
next
  case (Cons sp sps)
  obtain r1 tr1 w1 where step: "syncProduct P handle inst B sp (tr, w) = (r1, (tr1, w1))"
    by (metis prod.exhaust)
  with Cons.prems have r1: "r1 = None" by (cases r1) auto
  with Cons.prems step have rest: "syncProducts P handle inst B sps (tr1, w1) = (None, (tr', w'))"
    by simp
  have "pushes tr1 = pushes tr @ (if specAction B sp = Skipped then []
          else [CallUpdateBWP inst (p_id sp) (convertToBWPFormat sp)])"
    using syncProduct_trace [OF step]
    by (cases "specAction B sp") (auto simp: pushes_def outcomeLine_def)
  with Cons.IH [OF rest] show ?case by simp
qed

subsection \<open>Console lines of a run\<close>

lemma syncProducts_outcomes:
  "syncProducts P handle inst B A (tr, w) = (r, (tr', w')) \<Longrightarrow>
     (r = None \<longrightarrow> outcomes tr' = outcomes tr @ map (outcomeLine B handle) A) \<and>
     (r \<noteq> None \<longrightarrow> length (outcomes tr') < length (outcomes tr) + length A)"
proof (induction A arbitrary: tr w)
  case Nil
  then show ?case by simp
next
  case (Cons sp sps)
  obtain r1 tr1 w1 where step: "syncProduct P handle inst B sp (tr, w) = (r1, (tr1, w1))"
    by (metis prod.exhaust)
  have o1: "outcomes tr1 = outcomes tr @ (if r1 = None then [outcomeLine B handle sp] else [])"
    using syncProduct_trace [OF step]
    by (cases "specAction B sp") (auto simp: outcomes_def outcomeLine_def)
  show ?case
  proof (cases r1)
    case None
    with Cons.prems step have "syncProducts P handle inst B sps (tr1, w1) = (r, (tr', w'))" by simp
    from Cons.IH [OF this] o1 None show ?thesis by auto
  next
    case (Some e)
    with Cons.prems step have "r = Some e" "tr' = tr1" by simp_all
    with o1 Some show ?thesis by simp
  qed
qed

text \<open>
  C5, as the code has it. The handlers write no outcome record; the console line of a
  product is written after its push returned. A pass over a store's products that ends
  without an exception has written exactly one line per product, in list order, each the
  line of the product's action; a pass that an exception ended has written fewer lines than
  there are products.
\<close>

theorem outcome_lines_per_run:
  assumes "syncProducts P handle inst bwpProducts shoplineProducts (tr, w) = (r, (tr', w'))"
  shows "(r = None \<longrightarrow>
            outcomes tr' = outcomes tr @ map (outcomeLine bwpProducts handle) shoplineProducts) \<and>
         (r \<noteq> None \<longrightarrow> length (outcomes tr') < length (outcomes tr) + length shoplineProducts)"
  using assms by (rule syncProducts_outcomes)

theorem outcome_lines_per_run_witness:
  "outcomes (fst (snd (syncProducts reference ''shop-1'' ''inst-1'' [cup] [mug, cup] ([], oneShop [mug, cup] [cup] False)))) =
     [LogUpdated ''p1'' ''shop-1'', LogNoUpdate ''p1'' ''shop-1'']"
proof -
  obtain r tr' w' where run:
    "syncProducts reference ''shop-1'' ''inst-1'' [cup] [mug, cup] ([], oneShop [mug, cup] [cup] False) = (r, (tr', w'))"
    by (metis prod.exhaust)
  have "r = None"
    using run by (simp add: syncProduct_def pushThenLog_def reference_def putProduct_def oneShop_def
        compareProducts_def mug_def cup_def Let_def)
  with outcome_lines_per_run [OF run] run show ?thesis
    by (simp add: outcomes_def outcomeLine_def specAction_def mug_def cup_def)
qed

text \<open>
  C5 as stated fails: a product whose push is rejected is reconciled (the call is made) and
  no line is written for it; the run has no outcome line at all.
\<close>

theorem failed_push_no_outcome_counterexample:
  "fst (snd (handler reference (oneShop [mug] [] True))) =
     [CallUpdateBWP ''inst-1'' ''p1'' (convertToBWPFormat mug), LogError requestFailed] \<and>
   outcomes (fst (snd (handler reference (oneShop [mug] [] True)))) = []"
  by (simp add: handler_def reference_def oneShop_def shop_def syncStore_def truthy_def fetchAll_def
      syncProduct_def pushThenLog_def putProduct_def Let_def mug_def outcomes_def)

subsection \<open>A store whose request fails\<close>

lemma syncStores_append:
  "syncStores P (xs @ ys) s =
     (case syncStores P xs s of (Some e, s') \<Rightarrow> (Some e, s') | (None, s') \<Rightarrow> syncStores P ys s')"
  by (induction xs arbitrary: s) (auto split: prod.splits option.splits)

text \<open>
  C2, as the code has it. The batch handler has one \<^verbatim>\<open>try\<close> around both loops.
  When the stores before a linked store were processed without an exception and that
  store's product request (to Shopline, or to BWP after it) fails, the run ends there: the
  handler logs the error, answers 500, and the stores after it are not processed: the result
  does not depend on them.
\<close>

theorem batch_stops_at_failing_store:
  assumes stores: "getAllStores P w = Inr (before @ st # after)"
      and before: "syncStores P before ([], w) = (None, s1)"
      and linked: "truthy (bwpInstallationId st)"
      and fails: "getShoplineProducts P (snd s1) (store_id st) = Inl e \<or>
                  (\<exists>A. getShoplineProducts P (snd s1) (store_id st) = Inr A \<and>
                       getBWPProducts P (snd s1) (the (bwpInstallationId st)) = Inl e)"
  shows "handler P w = (syncFailed, (fst s1 @ [LogError e], snd s1))"
proof -
  have "syncStore P st s1 = (Some e, s1)"
    using linked fails by (auto simp: syncStore_def Let_def)
  then have "syncStores P (before @ st # after) ([], w) = (Some e, s1)"
    using before by (simp add: syncStores_append)
  then show ?thesis using stores by (simp add: handler_def)
qed

theorem batch_stops_at_failing_store_witness:
  "handler reference threeShops =
     (syncFailed,
      ([CallUpdateBWP ''inst-1'' ''p1'' (convertToBWPFormat mug), LogCreated ''p1'' ''shop-1'',
        LogError requestFailed],
       threeShops\<lparr>bwpCatalog := (bwpCatalog threeShops)(''inst-1'' := Some (upsert ''p1'' (convertToBWPFormat mug) []))\<rparr>))"
proof -
  let ?w1 = "threeShops\<lparr>bwpCatalog := (bwpCatalog threeShops)(''inst-1'' := Some (upsert ''p1'' (convertToBWPFormat mug) []))\<rparr>"
  let ?s1 = "([CallUpdateBWP ''inst-1'' ''p1'' (convertToBWPFormat mug), LogCreated ''p1'' ''shop-1''], ?w1)"
  have a: "getAllStores reference threeShops =
      Inr ([shop ''shop-1'' (Some ''inst-1'')] @ shop ''shop-2'' (Some ''inst-2'') # [shop ''shop-3'' (Some ''inst-3'')])"
    by (simp add: reference_def threeShops_def)
  have b: "syncStores reference [shop ''shop-1'' (Some ''inst-1'')] ([], threeShops) = (None, ?s1)"
    by (simp add: reference_def threeShops_def shop_def syncStore_def truthy_def fetchAll_def
      syncProduct_def pushThenLog_def putProduct_def Let_def mug_def)
  have c: "truthy (bwpInstallationId (shop ''shop-2'' (Some ''inst-2'')))"
    by (simp add: shop_def truthy_def)
  have d: "getShoplineProducts reference (snd ?s1) (store_id (shop ''shop-2'' (Some ''inst-2''))) = Inl requestFailed"
    by (simp add: reference_def threeShops_def shop_def fetchAll_def)
  show ?thesis
    using batch_stops_at_failing_store [OF a b c disjI1, OF d] by simp
qed

text \<open>
  C2 as stated fails: of three linked stores whose second one's request fails, the third is
  never reached, and the run answers 500.
\<close>

theorem batch_fault_isolation_counterexample:
  "fst (handler reference threeShops) = syncFailed \<and>
   fst (snd (handler reference threeShops)) =
     [CallUpdateBWP ''inst-1'' ''p1'' (convertToBWPFormat mug), LogCreated ''p1'' ''shop-1'',
      LogError requestFailed] \<and>
   LogCreated ''p1'' ''shop-3'' \<notin> set (fst (snd (handler reference threeShops)))"
  by (simp add: handler_def reference_def threeShops_def shop_def syncStore_def truthy_def fetchAll_def
      syncProduct_def pushThenLog_def putProduct_def Let_def mug_def)

subsection \<open>A store without a BWP installation\<close>

text \<open>
  C6, as the code has it. For a store whose item has no (or an empty)
  \<^verbatim>\<open>bwpInstallationId\<close>, the batch handler logs that it skips the store and goes on,
  calling nothing; the webhook handler throws \<^verbatim>\<open>BWP installation ID not found for this store\<close>,
  which its \<^verbatim>\<open>catch\<close> logs and answers with 500, calling neither catalog.
\<close>

theorem unlinked_store_by_mode:
  assumes "\<not> truthy (bwpInstallationId st)"
  shows "syncStore P st (tr, w) = (None, (tr @ [LogSkipping (store_id st)], w)) \<and>
         (truthy (wh_handle d) \<and> truthy (wh_productId d) \<and>
          getStoreInfo P w (the (wh_handle d)) = Inr st \<longrightarrow>
            webhookHandler P w (Some d) = (webhookFailed, ([LogError notLinked], w)))"
  using assms by (simp add: syncStore_def webhookHandler_def webhookCatch_def Let_def)

theorem unlinked_store_by_mode_witness:
  "syncStore reference (shop ''shop-4'' None) ([], oneShop [mug] [] False) =
     (None, ([LogSkipping ''shop-4''], oneShop [mug] [] False)) \<and>
   webhookHandler reference (oneShop [mug] [] False) (Some shop4Webhook) =
     (webhookFailed, ([LogError notLinked], oneShop [mug] [] False))"
proof -
  have a: "\<not> truthy (bwpInstallationId (shop ''shop-4'' None))"
    by (simp add: shop_def truthy_def)
  have b: "truthy (wh_handle shop4Webhook) \<and> truthy (wh_productId shop4Webhook) \<and>
          getStoreInfo reference (oneShop [mug] [] False) (the (wh_handle shop4Webhook)) = Inr (shop ''shop-4'' None)"
    by (simp add: shop4Webhook_def truthy_def reference_def oneShop_def shop_def)
  show ?thesis
    using unlinked_store_by_mode [OF a, of reference "[]" "oneShop [mug] [] False" shop4Webhook] b
    by (simp add: shop_def)
qed

text \<open>
  C6 as stated fails in webhook mode: the unlinked store is answered with an error.
\<close>

theorem webhook_unlinked_counterexample:
  "statusCode (fst (webhookHandler reference (oneShop [mug] [] False) (Some shop4Webhook))) = 500 \<and>
   fst (snd (webhookHandler reference (oneShop [mug] [] False) (Some shop4Webhook))) = [LogError notLinked]"
  by (simp add: webhookHandler_def shop4Webhook_def truthy_def reference_def oneShop_def shop_def
      webhookCatch_def webhookFailed_def)

subsection \<open>Running twice\<close>

lemma specAction_Skipped_iff:
  "specAction B sp = Skipped \<longleftrightarrow> fieldsAt B (p_id sp) = Some (coreFields sp)"
  by (auto simp: specAction_def fieldsAt_def coreFields_def split: option.splits)

lemma fieldsAt_upsert:
  "fieldsAt (upsert q d B) k =
     (if k = q then Some (bwp_title d, bwp_description d, bwp_price d) else fieldsAt B k)"
  by (induction B) (auto simp: fieldsAt_def)

lemma syncProducts_all_skipped:
  "\<forall>sp \<in> set A. specAction B sp = Skipped \<Longrightarrow>
     syncProducts P handle inst B A (tr, w) =
       (None, (tr @ map (\<lambda>sp. LogNoUpdate (p_id sp) handle) A, w))"
  by (induction A arbitrary: tr) (auto simp: syncProduct_specAction)

lemma pushThenLog_reference:
  assumes "pushThenLog reference inst k sp line (tr, w) = (None, (tr', w'))"
      and "bwpCatalog w inst = Some Bw"
  shows "bwpCatalog w' = (bwpCatalog w)(inst := Some (upsert k (convertToBWPFormat sp) Bw))
         \<and> shoplineCatalog w' = shoplineCatalog w \<and> installations w' = installations w
         \<and> putRejected w' = putRejected w"
  using assms
  by (auto simp: pushThenLog_def reference_def putProduct_def Let_def split: sum.splits if_splits)

lemma syncProduct_reference:
  assumes "syncProduct reference handle inst B0 sp (tr, w) = (None, (tr', w'))"
      and "bwpCatalog w inst = Some Bw"
  shows "\<exists>Bw'. bwpCatalog w' = (bwpCatalog w)(inst := Some Bw')
           \<and> shoplineCatalog w' = shoplineCatalog w
           \<and> (\<forall>k. fieldsAt Bw' k =
                 (if k = p_id sp \<and> specAction B0 sp \<noteq> Skipped then Some (coreFields sp)
                  else fieldsAt Bw k))"
proof (cases "specAction B0 sp = Skipped")
  case True
  with assms have "w' = w" by (simp add: syncProduct_specAction)
  with True assms(2) show ?thesis by (intro exI [of _ Bw]) auto
next
  case False
  then have "pushThenLog reference inst (p_id sp) sp (LogCreated (p_id sp) handle) (tr, w) = (None, (tr', w'))
    \<or> pushThenLog reference inst (p_id sp) sp (LogUpdated (p_id sp) handle) (tr, w) = (None, (tr', w'))"
    using assms(1) by (cases "specAction B0 sp") (auto simp: syncProduct_specAction)
  then have "bwpCatalog w' = (bwpCatalog w)(inst := Some (upsert (p_id sp) (convertToBWPFormat sp) Bw))
         \<and> shoplineCatalog w' = shoplineCatalog w"
    using pushThenLog_reference assms(2) by blast
  with False show ?thesis
    by (intro exI [of _ "upsert (p_id sp) (convertToBWPFormat sp) Bw"])
       (auto simp: fieldsAt_upsert coreFields_def convertToBWPFormat_def)
qed

lemma syncProducts_reference:
  assumes "syncProducts reference handle inst B0 A (tr, w) = (None, (tr', w'))"
      and "bwpCatalog w inst = Some Bw"
      and "distinct (map p_id A)"
      and "\<forall>sp \<in> set A. specAction B0 sp = Skipped \<longrightarrow> specAction Bw sp = Skipped"
  shows "\<exists>Bw'. bwpCatalog w' = (bwpCatalog w)(inst := Some Bw')
           \<and> shoplineCatalog w' = shoplineCatalog w
           \<and> (\<forall>sp \<in> set A. specAction Bw' sp = Skipped)
           \<and> (\<forall>k. k \<notin> p_id ` set A \<longrightarrow> fieldsAt Bw' k = fieldsAt Bw k)"
  using assms
proof (induction A arbitrary: tr w Bw)
  case Nil
  then show ?case by (intro exI [of _ Bw]) auto
next
  case (Cons sp sps)
  obtain r1 tr1 w1 where step: "syncProduct reference handle inst B0 sp (tr, w) = (r1, (tr1, w1))"
    by (metis prod.exhaust)
  with Cons.prems(1) have r1: "r1 = None" by (cases r1) auto
  with Cons.prems(1) step have rest: "syncProducts reference handle inst B0 sps (tr1, w1) = (None, (tr', w'))"
    by simp
  from syncProduct_reference [OF step [unfolded r1] Cons.prems(2)]
  obtain B1 where B1: "bwpCatalog w1 = (bwpCatalog w)(inst := Some B1)"
    "shoplineCatalog w1 = shoplineCatalog w"
    "\<And>k. fieldsAt B1 k = (if k = p_id sp \<and> specAction B0 sp \<noteq> Skipped then Some (coreFields sp) else fieldsAt Bw k)"
    by blast
  have c1: "bwpCatalog w1 inst = Some B1" using B1(1) by simp
  have d: "distinct (map p_id sps)" "p_id sp \<notin> p_id ` set sps" using Cons.prems(3) by auto
  have sp1: "specAction B1 sp = Skipped"
    using B1(3) [of "p_id sp"] Cons.prems(4) by (auto simp: specAction_Skipped_iff)
  have inv: "\<forall>x \<in> set sps. specAction B0 x = Skipped \<longrightarrow> specAction B1 x = Skipped"
  proof (intro ballI impI)
    fix x assume x: "x \<in> set sps" "specAction B0 x = Skipped"
    then have "p_id x \<noteq> p_id sp" using d(2) by (metis imageI)
    then have "fieldsAt B1 (p_id x) = fieldsAt Bw (p_id x)" using B1(3) by simp
    moreover have "specAction Bw x = Skipped" using Cons.prems(4) x by simp
    ultimately show "specAction B1 x = Skipped" by (simp add: specAction_Skipped_iff)
  qed
  from Cons.IH [OF rest c1 d(1) inv]
  obtain B2 where B2: "bwpCatalog w' = (bwpCatalog w1)(inst := Some B2)"
    "shoplineCatalog w' = shoplineCatalog w1"
    "\<forall>x \<in> set sps. specAction B2 x = Skipped"
    "\<forall>k. k \<notin> p_id ` set sps \<longrightarrow> fieldsAt B2 k = fieldsAt B1 k"
    by blast
  have "specAction B2 sp = Skipped"
    using B2(4) d(2) sp1 by (simp add: specAction_Skipped_iff)
  moreover have "\<forall>k. k \<notin> p_id ` set (sp # sps) \<longrightarrow> fieldsAt B2 k = fieldsAt Bw k"
    using B2(4) B1(3) by auto
  moreover have "bwpCatalog w' = (bwpCatalog w)(inst := Some B2)"
    using B2(1) B1(1) by simp
  ultimately show ?case
    using B2 B1(2) by (intro exI [of _ B2]) auto
qed

text \<open>
  C3, as the code has it. On the reference platform (a PUT that succeeds sets the three
  fields of the product with that id), for a linked store whose Shopline products have
  pairwise different ids: when a first pass over the store ended without an exception, a
  second pass right after it makes no call and logs \<^verbatim>\<open>No update needed\<close> for
  every product.
\<close>

theorem second_run_all_skipped:
  assumes linked: "truthy (bwpInstallationId st)"
      and catalog: "shoplineCatalog w (store_id st) = Some shoplineProducts"
      and ids: "distinct (map p_id shoplineProducts)"
      and first: "syncStore reference st (tr, w) = (None, (tr1, w1))"
  shows "syncStore reference st (tr1, w1) =
           (None, (tr1 @ map (\<lambda>sp. LogNoUpdate (p_id sp) (store_id st)) shoplineProducts, w1))"
proof -
  let ?inst = "the (bwpInstallationId st)"
  from first linked catalog obtain B0 where B0: "bwpCatalog w ?inst = Some B0"
    and run: "syncProducts reference (store_id st) ?inst B0 shoplineProducts (tr, w) = (None, (tr1, w1))"
    by (auto simp: syncStore_def reference_def fetchAll_def Let_def split: option.splits)
  from syncProducts_reference [OF run B0 ids]
  obtain B1 where B1: "bwpCatalog w1 = (bwpCatalog w)(?inst := Some B1)"
    "shoplineCatalog w1 = shoplineCatalog w"
    "\<forall>sp \<in> set shoplineProducts. specAction B1 sp = Skipped"
    by blast
  have "syncStore reference st (tr1, w1) =
          syncProducts reference (store_id st) ?inst B1 shoplineProducts (tr1, w1)"
    using linked catalog B1(1,2) by (simp add: syncStore_def reference_def fetchAll_def Let_def)
  with syncProducts_all_skipped [OF B1(3)] show ?thesis by simp
qed

theorem second_run_all_skipped_witness:
  "syncStore reference (shop ''shop-1'' (Some ''inst-1''))
     (snd (syncStore reference (shop ''shop-1'' (Some ''inst-1'')) ([], oneShop [mug] [] False))) =
   (None,
    (fst (snd (syncStore reference (shop ''shop-1'' (Some ''inst-1'')) ([], oneShop [mug] [] False)))
       @ [LogNoUpdate ''p1'' ''shop-1''],
     snd (snd (syncStore reference (shop ''shop-1'' (Some ''inst-1'')) ([], oneShop [mug] [] False)))))"
proof -
  let ?st = "shop ''shop-1'' (Some ''inst-1'')"
  obtain r tr1 w1 where run: "syncStore reference ?st ([], oneShop [mug] [] False) = (r, (tr1, w1))"
    by (metis prod.exhaust)
  have r: "r = None"
    using run by (simp add: syncStore_def shop_def truthy_def reference_def oneShop_def fetchAll_def
        syncProduct_def pushThenLog_def putProduct_def Let_def)
  have a: "truthy (bwpInstallationId ?st)" by (simp add: shop_def truthy_def)
  have b: "shoplineCatalog (oneShop [mug] [] False) (store_id ?st) = Some [mug]"
    by (simp add: oneShop_def)
  have c: "distinct (map p_id [mug])" by simp
  from second_run_all_skipped [OF a b c run [unfolded r]] run r show ?thesis
    by (simp add: mug_def shop_def)
qed

text \<open>
  C3 as stated, for every pair of lists, fails: with two Shopline products of one id, both
  first-run pushes succeed, the last one wins on Platform B, and the second run pushes the
  first product again.
\<close>

theorem duplicate_ids_second_run_counterexample:
  "fst (syncStore reference (shop ''shop-1'' (Some ''inst-1'')) ([], oneShop [mug, cup] [] False)) = None \<and>
   pushes (fst (snd (syncStore reference (shop ''shop-1'' (Some ''inst-1''))
     (snd (syncStore reference (shop ''shop-1'' (Some ''inst-1'')) ([], oneShop [mug, cup] [] False)))))) =
   [CallUpdateBWP ''inst-1'' ''p1'' (convertToBWPFormat mug),
    CallUpdateBWP ''inst-1'' ''p1'' (convertToBWPFormat cup),
    CallUpdateBWP ''inst-1'' ''p1'' (convertToBWPFormat mug)]"
  by (simp add: syncStore_def shop_def truthy_def reference_def oneShop_def fetchAll_def
        syncProduct_def pushThenLog_def putProduct_def Let_def pushes_def mug_def cup_def
        compareProducts_def convertToBWPFormat_def)

section \<open>Properties of the Shopline OAuth callback\<close>

lemma isFailure_callbackCatch: "isFailure (callbackCatch e event)"
  by (simp add: callbackCatch_def)


lemma handleCallback_unknown_state:
  assumes "ev_query event = Some (Some code, Some state)" "code \<noteq> []" "state \<noteq> []"
      and "installStateTable t state = None"
  shows "handleCallback env t event =
           (callbackCatch (case stateGetThrows env of Some e \<Rightarrow> e
                           | None \<Rightarrow> plainError ''Invalid state'') event, t)"
  using assms by (simp add: handleCallback_def truthy_def split: option.splits)


lemma handleCallback_token_failure:
  assumes "ev_query event = Some (Some code, state)"
      and "tokenPost env code = Inl e"
  shows "isFailure (fst (handleCallback env t event))" "snd (handleCallback env t event) = t"
  using assms
  by (simp_all add: handleCallback_def isFailure_callbackCatch split: option.splits sum.splits)

lemma handleCallback_token_failure_reached:
  assumes "ev_query event = Some (Some code, Some state)" "code \<noteq> []" "state \<noteq> []"
      and "stateGetThrows env = None"
      and "installStateTable t state = Some item" "si_type item = ''shopline_install''"
      and "getSecrets env = Inr secrets"
      and "tokenPost env code = Inl e"
  shows "handleCallback env t event = (callbackCatch e event, t)"
  using assms by (simp add: handleCallback_def truthy_def)

text \<open>
  C10. Whenever the token request for the callback's code throws, the handler answers with
  the error response of its \<^verbatim>\<open>catch\<close> and both tables are as they were: nothing is
  put into the stores table and the state item is not deleted. When the request is reached
  (both parameters present, a \<^verbatim>\<open>shopline_install\<close> item stored under the state, the
  secrets read), the error answered is the one the request threw.
\<close>

theorem token_exchange_failure_atomic:
  assumes "ev_query event = Some (Some code, state)"
      and "tokenPost env code = Inl e"
  shows "isFailure (fst (handleCallback env t event)) \<and> snd (handleCallback env t event) = t \<and>
         (code \<noteq> [] \<and> truthy state \<and> stateGetThrows env = None \<and>
          map_option si_type (installStateTable t (the state)) = Some ''shopline_install'' \<and>
          (\<exists>secrets. getSecrets env = Inr secrets) \<longrightarrow>
            fst (handleCallback env t event) = callbackCatch e event)"
proof -
  have "fst (handleCallback env t event) = callbackCatch e event"
    if "code \<noteq> []" "truthy state" "stateGetThrows env = None"
       "map_option si_type (installStateTable t (the state)) = Some ''shopline_install''"
       "\<exists>secrets. getSecrets env = Inr secrets"
  proof -
    from that(2) obtain s where s: "state = Some s" "s \<noteq> []"
      by (cases state) (auto simp: truthy_def)
    from that(4) s obtain item where
      "installStateTable t s = Some item" "si_type item = ''shopline_install''"
      by auto
    with handleCallback_token_failure_reached [of event code s env t item _ e] assms that s
    show ?thesis by auto
  qed
  with handleCallback_token_failure [OF assms] show ?thesis by blast
qed

theorem token_exchange_failure_atomic_witness:
  "handleCallback tokenEndpointDown pendingInstall s1Callback =
     (Failure 500 ''Request failed with status code 400'' (Some ''r1''), pendingInstall)"
proof -
  have a: "ev_query s1Callback = Some (Some ''code-1'', Some ''s1'')"
    by (simp add: s1Callback_def)
  have b: "tokenPost tokenEndpointDown ''code-1'' =
             Inl (plainError ''Request failed with status code 400'')"
    by (simp add: tokenEndpointDown_def)
  have c: "''code-1'' \<noteq> [] \<and> truthy (Some ''s1'') \<and> stateGetThrows tokenEndpointDown = None \<and>
          map_option si_type (installStateTable pendingInstall (the (Some ''s1''))) =
            Some ''shopline_install'' \<and>
          (\<exists>secrets. getSecrets tokenEndpointDown = Inr secrets)"
    by (simp add: truthy_def tokenEndpointDown_def workingEnv_def pendingInstall_def)
  from token_exchange_failure_atomic [OF a b, of pendingInstall] c show ?thesis
    by (simp add: prod_eq_iff callbackCatch_def plainError_def s1Callback_def)
qed

section \<open>Properties of the signature check\<close>

lemma numericKeys_sorted:
  "sort (map fst numericKeys) = [''10'', ''9'', ''appkey'', ''handle'', ''timestamp'']"
  by (simp add: numericKeys_def less_eq_char_def less_char_def)

lemma numericKeys_indices:
  "isArrayIndex ''10'' \<and> isArrayIndex ''9'' \<and> \<not> isArrayIndex ''appkey'' \<and>
   \<not> isArrayIndex ''handle'' \<and> \<not> isArrayIndex ''timestamp''"
  by (simp add: isArrayIndex_def isDigit_def decimalValue_def)

lemma numericKeys_order:
  "assignedKeys [''10'', ''9'', ''appkey'', ''handle'', ''timestamp''] =
     [''9'', ''10'', ''appkey'', ''handle'', ''timestamp'']"
  using numericKeys_indices by (simp add: assignedKeys_def ownPropertyKeys_def decimalValue_def)

lemma signString_numericKeys:
  "signString numericKeys = ''9=b&10=a&appkey=k&handle=shop&timestamp=1''"
  by (simp add: signString_def sortedParams_def numericKeys_sorted numericKeys_order)
     (simp add: numericKeys_def)

lemma specSignString_numericKeys:
  "specSignString numericKeys = ''10=a&9=b&appkey=k&handle=shop&timestamp=1''"
  by (simp add: specSignString_def numericKeys_sorted) (simp add: numericKeys_def)

text \<open>
  Where no key is an array index or \<^verbatim>\<open>__proto__\<close>, the text that is signed is the
  specification's: the keys in lexicographic order, joined as \<open>key=value\<close> with \<open>&\<close>.
\<close>

lemma signString_is_spec:
  assumes "\<forall>k \<in> set (map fst ps). \<not> isArrayIndex k \<and> k \<noteq> ''__proto__''"
  shows "signString ps = specSignString ps"
proof -
  have "\<forall>k \<in> set (sort (map fst ps)). \<not> isArrayIndex k \<and> k \<noteq> ''__proto__''"
    using assms by simp
  then have "assignedKeys (sort (map fst ps)) = sort (map fst ps)"
    unfolding assignedKeys_def ownPropertyKeys_def by (simp add: filter_empty_conv)
  then show ?thesis
    by (simp add: signString_def specSignString_def sortedParams_def comp_def)
qed

text \<open>
  A parameter named \<^verbatim>\<open>__proto__\<close> is not part of the signed text: adding it to a
  request does not change whether the signature verifies.
\<close>

lemma assignedKeys_proto:
  "assignedKeys (sort (''__proto__'' # ks)) = assignedKeys (sort ks)"
proof -
  let ?P = "\<lambda>k. k \<noteq> ''__proto__''"
  have "filter ?P (sort (''__proto__'' # ks)) = sort (filter ?P (''__proto__'' # ks))"
    by (rule filter_sort)
  also have "\<dots> = sort (filter ?P ks)" by simp
  also have "\<dots> = filter ?P (sort ks)" by (rule filter_sort [symmetric])
  finally show ?thesis by (simp only: assignedKeys_def)
qed

lemma assignedKeys_no_proto: "''__proto__'' \<notin> set (assignedKeys ks)"
  by (auto simp: assignedKeys_def ownPropertyKeys_def)

lemma signString_ignores_proto:
  "signString ((''__proto__'', v) # ps) = signString ps"
proof -
  have "map (\<lambda>k. (k, the (map_of ((''__proto__'', v) # ps) k))) (assignedKeys (sort (map fst ps))) =
        map (\<lambda>k. (k, the (map_of ps k))) (assignedKeys (sort (map fst ps)))"
    using assignedKeys_no_proto [of "sort (map fst ps)"] by (intro map_cong) auto
  moreover have "sortedParams ((''__proto__'', v) # ps) =
    map (\<lambda>k. (k, the (map_of ((''__proto__'', v) # ps) k))) (assignedKeys (sort (map fst ps)))"
    unfolding sortedParams_def using assignedKeys_proto [of "map fst ps"] by simp
  ultimately have "sortedParams ((''__proto__'', v) # ps) = sortedParams ps"
    by (simp only: sortedParams_def)
  then show ?thesis by (simp only: signString_def)
qed

lemma verifySign_ignores_proto:
  "verifySign hmac ((''__proto__'', v) # ps) secret = verifySign hmac ps secret"
  by (simp add: verifySign_def generateSign_def restOf_def signString_ignores_proto)

text \<open>
  The install handler answers 400 when one of the four parameters is absent or empty, and
  otherwise, with the credentials read, 401 exactly when \<open>sign\<close> is not the keyed hash of
  the signed text of the other parameters.
\<close>

lemma installHandler_missing:
  assumes "\<not> truthy (map_of ps ''appkey'') \<or> \<not> truthy (map_of ps ''handle'') \<or>
           \<not> truthy (map_of ps ''timestamp'') \<or> \<not> truthy (map_of ps ''sign'')"
  shows "installHandler env table ps = (missingParameters, table)"
  using assms by (auto simp: installHandler_def)

lemma installHandler_rejects_iff:
  assumes "truthy (map_of ps ''appkey'')" "truthy (map_of ps ''handle'')"
          "truthy (map_of ps ''timestamp'')" "truthy (map_of ps ''sign'')"
      and "getShoplineCredentials env = Inr (appKey, appSecret)"
  shows "fst (installHandler env table ps) = invalidSignature \<longleftrightarrow>
           map_of ps ''sign'' \<noteq> Some (hmacSha256 env appSecret (signString (restOf ps)))"
  using assms
  by (auto simp: installHandler_def verifySign_def generateSign_def invalidSignature_def
      installationFailed_def Let_def split: option.splits)

text \<open>
  C7 at a request with the parameters \<open>10\<close> and \<open>9\<close>. The comment in
  \<^verbatim>\<open>generateSign\<close> says the parameters are sorted alphabetically, and the keys are;
  but they are then stored in an object, which lists its array-index keys first and in
  numeric order. The text that is signed starts with \<open>9=b&10=a\<close>, the lexicographic one
  with \<open>10=a&9=b\<close>, and a request signed over the lexicographic text is accepted only
  when the keyed hash of the two texts is the same.
\<close>

theorem sign_text_numeric_keys:
  "signString numericKeys = ''9=b&10=a&appkey=k&handle=shop&timestamp=1'' \<and>
   specSignString numericKeys = ''10=a&9=b&appkey=k&handle=shop&timestamp=1'' \<and>
   verifySign hmac ((''sign'', hmac secret (specSignString numericKeys)) # numericKeys) secret =
     (hmac secret ''10=a&9=b&appkey=k&handle=shop&timestamp=1'' =
      hmac secret ''9=b&10=a&appkey=k&handle=shop&timestamp=1'')"
proof -
  have "restOf ((''sign'', x) # numericKeys) = numericKeys" for x
    by (simp add: restOf_def numericKeys_def)
  then show ?thesis
    by (simp add: verifySign_def generateSign_def signString_numericKeys
        specSignString_numericKeys)
qed

section \<open>Properties of the token refresh sweep\<close>

lemma assign_Nil: "assign h d [] = []"
  by (simp add: assign_def)

lemma assign_Cons:
  "assign h d ((k, v) # ts) = (if k = h then (k, d) else (k, v)) # assign h d ts"
  by (simp add: assign_def)

lemma map_fst_assign: "map fst (assign h d ts) = map fst ts"
  by (induction ts) (auto simp: assign_Nil assign_Cons)

lemma map_of_assign:
  "map_of (assign h d ts) k = (if k = h \<and> h \<in> fst ` set ts then Some d else map_of ts k)"
  by (induction ts) (auto simp: assign_Nil assign_Cons rev_image_eqI)

lemma refreshOne_requested:
  "requested (refreshOne env entry s) = requested s @ (if due env entry then [fst entry] else [])"
  by (auto simp: refreshOne_def due_def Let_def split: sum.splits option.splits)

lemma refreshOne_keys: "map fst (tokens (refreshOne env entry s)) = map fst (tokens s)"
  by (auto simp: refreshOne_def Let_def map_fst_assign split: sum.splits option.splits)

lemma refreshOne_tokens:
  assumes "map_of (tokens s) (fst entry) = Some (snd entry)"
  shows "map_of (tokens (refreshOne env entry s)) k =
           (if k = fst entry then Some (afterSweep env entry) else map_of (tokens s) k)"
proof -
  have "fst entry \<in> fst ` set (tokens s)"
    using assms by (metis map_of_eq_None_iff option.distinct(1))
  then show ?thesis
    using assms
    by (auto simp: refreshOne_def afterSweep_def due_def Let_def map_of_assign
        split: sum.splits option.splits)
qed

lemma refreshAll_requested:
  "requested (refreshAll env es s) = requested s @ map fst (filter (due env) es)"
  by (induction es arbitrary: s) (auto simp: refreshOne_requested)

lemma refreshAll_keys: "map fst (tokens (refreshAll env es s)) = map fst (tokens s)"
  by (induction es arbitrary: s) (auto simp: refreshOne_keys)

lemma refreshAll_tokens:
  assumes "distinct (map fst es)"
      and "\<forall>entry \<in> set es. map_of (tokens s) (fst entry) = Some (snd entry)"
  shows "map_of (tokens (refreshAll env es s)) k =
           (case map_of es k of None \<Rightarrow> map_of (tokens s) k
            | Some d \<Rightarrow> Some (afterSweep env (k, d)))"
  using assms
proof (induction es arbitrary: s)
  case Nil
  then show ?case by simp
next
  case (Cons entry es)
  obtain h d where entry: "entry = (h, d)" by (cases entry)
  have here: "map_of (tokens s) h = Some d" using Cons.prems(2) entry by simp
  have step: "\<And>k. map_of (tokens (refreshOne env entry s)) k =
           (if k = h then Some (afterSweep env entry) else map_of (tokens s) k)"
    using refreshOne_tokens [of s entry env] here entry by simp
  have notin: "h \<notin> fst ` set es" using Cons.prems(1) entry by simp
  have inv: "\<forall>x \<in> set es. map_of (tokens (refreshOne env entry s)) (fst x) = Some (snd x)"
  proof
    fix x assume x: "x \<in> set es"
    then have "fst x \<noteq> h" using notin by auto
    then show "map_of (tokens (refreshOne env entry s)) (fst x) = Some (snd x)"
      using step x Cons.prems(2) by simp
  qed
  have d: "distinct (map fst es)" using Cons.prems(1) by simp
  have none: "map_of es h = None" using notin by (simp add: map_of_eq_None_iff)
  show ?case
    using Cons.IH [OF d inv, of] step entry none
    by (auto split: option.splits)
qed

text \<open>
  C8. With the tokens of the secret (an object, so no handle twice), the sweep sends a
  refresh request for exactly the entries whose \<open>expiresAt\<close> is not later than 24 hours
  after the moment of their check, in order, and for no other. Every entry is still there
  afterwards; an entry whose request failed, or that was not due, is unchanged, and every
  entry whose request succeeded holds the new tokens, whatever happened to the entries
  before it. These tokens are what the handler saves, when saving the secret succeeds.
\<close>

theorem refresh_sweep:
  assumes creds: "getCredentials env = Inr (Some ts)"
      and keys: "distinct (map fst ts)"
  shows "\<exists>s. refreshHandler env =
             (if putSecretThrows env = None
              then (refreshCompleted, Some s, Some (tokens s))
              else (refreshFailed, Some s, None)) \<and>
           requested s =
             map fst (filter (\<lambda>(h, d). expiresAt d \<le> checkTime env h + renewalWindow) ts) \<and>
           map fst (tokens s) = map fst ts \<and>
           (\<forall>(h, d) \<in> set ts.
              map_of (tokens s) h =
                Some (if expiresAt d \<le> checkTime env h + renewalWindow
                      then case refreshCall env h (td_refreshToken d) of
                             Inl e \<Rightarrow> d
                           | Inr n \<Rightarrow> \<lparr>td_accessToken = new_access_token n,
                                       td_refreshToken = new_refresh_token n,
                                       expiresAt = storeTime env h + expires_in n * 1000\<rparr>
                      else d))"
proof -
  let ?init = "\<lparr>tokens = ts, requested = [], itemsUpdated = [], logged = []\<rparr>"
  let ?s = "refreshAll env ts ?init"
  have a: "refreshHandler env =
             (if putSecretThrows env = None
              then (refreshCompleted, Some ?s, Some (tokens ?s))
              else (refreshFailed, Some ?s, None))"
    using creds by (auto simp: refreshHandler_def Let_def split: option.splits)
  have due: "due env = (\<lambda>(h, d). expiresAt d \<le> checkTime env h + renewalWindow)"
    by (auto simp: due_def fun_eq_iff)
  have b: "requested ?s = map fst (filter (\<lambda>(h, d). expiresAt d \<le> checkTime env h + renewalWindow) ts)"
    by (simp add: refreshAll_requested due)
  have c: "map fst (tokens ?s) = map fst ts" by (simp add: refreshAll_keys)
  have pre: "\<forall>entry \<in> set ts. map_of (tokens ?init) (fst entry) = Some (snd entry)"
    using keys by simp
  have d: "map_of (tokens ?s) h = Some (afterSweep env (h, d))" if "(h, d) \<in> set ts" for h d
    using refreshAll_tokens [OF keys pre, of env h] that keys by simp
  have e: "\<forall>(h, d) \<in> set ts.
              map_of (tokens ?s) h =
                Some (if expiresAt d \<le> checkTime env h + renewalWindow
                      then case refreshCall env h (td_refreshToken d) of
                             Inl e \<Rightarrow> d
                           | Inr n \<Rightarrow> \<lparr>td_accessToken = new_access_token n,
                                       td_refreshToken = new_refresh_token n,
                                       expiresAt = storeTime env h + expires_in n * 1000\<rparr>
                      else d)"
  proof (intro ballI, clarify)
    fix h d assume "(h, d) \<in> set ts"
    from d [OF this] show "map_of (tokens ?s) h =
                Some (if expiresAt d \<le> checkTime env h + renewalWindow
                      then case refreshCall env h (td_refreshToken d) of
                             Inl e \<Rightarrow> d
                           | Inr n \<Rightarrow> \<lparr>td_accessToken = new_access_token n,
                                       td_refreshToken = new_refresh_token n,
                                       expiresAt = storeTime env h + expires_in n * 1000\<rparr>
                      else d)"
      by (simp add: afterSweep_def due_def split: sum.splits)
  qed
  from a b c e show ?thesis by blast
qed

theorem refresh_sweep_witness:
  "\<exists>s. refreshHandler exampleSweepEnv = (refreshCompleted, Some s, Some (tokens s)) \<and>
     requested s = [''soon'', ''broken'', ''last''] \<and>
     map_of (tokens s) ''broken'' = map_of exampleTokens ''broken'' \<and>
     map_of (tokens s) ''late'' = map_of exampleTokens ''late'' \<and>
     map_of (tokens s) ''last'' =
       Some \<lparr>td_accessToken = ''new-last'', td_refreshToken = ''r4'', expiresAt = 36001000\<rparr>"
proof -
  have a: "getCredentials exampleSweepEnv = Inr (Some exampleTokens)"
    by (simp add: exampleSweepEnv_def)
  have b: "distinct (map fst exampleTokens)"
    by (simp add: exampleTokens_def)
  have c: "putSecretThrows exampleSweepEnv = None"
    by (simp add: exampleSweepEnv_def)
  from refresh_sweep [OF a b] c obtain s where s:
    "refreshHandler exampleSweepEnv = (refreshCompleted, Some s, Some (tokens s))"
    "requested s = map fst (filter (\<lambda>(h, d). expiresAt d \<le> checkTime exampleSweepEnv h + renewalWindow) exampleTokens)"
    "\<forall>(h, d) \<in> set exampleTokens.
              map_of (tokens s) h =
                Some (if expiresAt d \<le> checkTime exampleSweepEnv h + renewalWindow
                      then case refreshCall exampleSweepEnv h (td_refreshToken d) of
                             Inl e \<Rightarrow> d
                           | Inr n \<Rightarrow> \<lparr>td_accessToken = new_access_token n,
                                       td_refreshToken = new_refresh_token n,
                                       expiresAt = storeTime exampleSweepEnv h + expires_in n * 1000\<rparr>
                      else d)"
    by auto
  have "requested s = [''soon'', ''broken'', ''last'']"
    using s(2) by (simp add: exampleTokens_def exampleSweepEnv_def renewalWindow_def hour_def)
  moreover have "map_of (tokens s) ''broken'' = map_of exampleTokens ''broken''"
    "map_of (tokens s) ''late'' = map_of exampleTokens ''late''"
    "map_of (tokens s) ''last'' =
       Some \<lparr>td_accessToken = ''new-last'', td_refreshToken = ''r4'', expiresAt = 36001000\<rparr>"
    using s(3) by (simp_all add: exampleTokens_def exampleSweepEnv_def renewalWindow_def hour_def)
  ultimately show ?thesis using s(1) by blast
qed

section \<open>Properties of the Buy with Prime endpoints\<close>

lemma validate_hash_value:
  "calculateRequestHash bwpExample (installRequest tok) = Inr ''#https://app.example/bwp/install''"
  by (simp add: calculateRequestHash_def installRequest_def bwpExample_def toySha_def
      includesStr_def truthy_def Let_def)

lemma validate_good:
  "validateVerificationToken bwpExample (installRequest ''good'') =
     Inr \<lparr>requestHash = Some ''#https://app.example/bwp/install'', installationId = Some ''i-1''\<rparr>"
  using validate_hash_value [of "''good''"]
  by (simp add: validateVerificationToken_def verificationToken_def truthy_def Let_def)
     (simp add: installRequest_def bwpExample_def toyVerify_def)





text \<open>
  C9. Take a request whose token is missing or fails \<^verbatim>\<open>jwt.verify\<close>, and a request
  whose token verifies but whose \<open>requestHash\<close> is not the hash computed from the
  request. Inside, validation throws different errors for the two; outside, each handler
  gives both the same answer, status and body: the install handler answers both with
  500 \<^verbatim>\<open>BWP installation failed\<close> and leaves the tables alone, and the settings
  and uninstall handlers answer both alike.
\<close>

theorem bwp_failure_causes_indistinguishable:
  assumes signature: "\<not> truthy (verificationToken r1) \<or> jwtVerify env (the (verificationToken r1)) = None"
      and hash: "truthy (verificationToken r2)"
                "jwtVerify env (the (verificationToken r2)) = Some payload"
                "calculateRequestHash env r2 = Inr actualHash"
                "requestHash payload \<noteq> Some actualHash"
  shows "handleBWPInstall env t r1 = (bwpInstallFailed, t) \<and>
         handleBWPInstall env t r2 = (bwpInstallFailed, t) \<and>
         handleBWPSettings env r1 = handleBWPSettings env r2 \<and>
         handleBWPUninstall env r1 = handleBWPUninstall env r2 \<and>
         validateVerificationToken env r1 \<noteq> validateVerificationToken env r2"
proof -
  have v1: "validateVerificationToken env r1 = Inl missingToken \<or>
            validateVerificationToken env r1 = Inl invalidToken"
    using signature by (auto simp: validateVerificationToken_def Let_def)
  have v2: "validateVerificationToken env r2 = Inl hashMismatch"
    using hash by (simp add: validateVerificationToken_def Let_def)
  have "missingToken \<noteq> hashMismatch" "invalidToken \<noteq> hashMismatch"
    by (simp_all add: missingToken_def invalidToken_def hashMismatch_def)
  with v1 v2 show ?thesis
    by (auto simp: handleBWPInstall_def handleBWPSettings_def handleBWPUninstall_def)
qed

theorem bwp_failure_causes_indistinguishable_witness:
  "handleBWPInstall bwpExample launched (installRequest ''forged'') = (bwpInstallFailed, launched) \<and>
   handleBWPInstall bwpExample launched (installRequest ''stale'') = (bwpInstallFailed, launched) \<and>
   handleBWPSettings bwpExample (installRequest ''forged'') =
     handleBWPSettings bwpExample (installRequest ''stale'') \<and>
   validateVerificationToken bwpExample (installRequest ''forged'') = Inl invalidToken \<and>
   validateVerificationToken bwpExample (installRequest ''stale'') = Inl hashMismatch"
proof -
  have tok: "verificationToken (installRequest x) = Some x" if "x \<noteq> []" for x
    using that by (simp add: verificationToken_def installRequest_def truthy_def)
  have a: "\<not> truthy (verificationToken (installRequest ''forged'')) \<or>
           jwtVerify bwpExample (the (verificationToken (installRequest ''forged''))) = None"
    by (simp add: tok bwpExample_def toyVerify_def)
  have b: "truthy (verificationToken (installRequest ''stale''))"
    by (simp add: tok truthy_def)
  have c: "jwtVerify bwpExample (the (verificationToken (installRequest ''stale''))) =
             Some \<lparr>requestHash = Some ''#https://app.example/bwp/other'', installationId = Some ''i-1''\<rparr>"
    by (simp add: tok bwpExample_def toyVerify_def)
  have d: "requestHash \<lparr>requestHash = Some ''#https://app.example/bwp/other'', installationId = Some ''i-1''\<rparr>
             \<noteq> Some ''#https://app.example/bwp/install''"
    by simp
  have v1: "validateVerificationToken bwpExample (installRequest ''forged'') = Inl invalidToken"
    by (simp add: validateVerificationToken_def tok truthy_def Let_def bwpExample_def toyVerify_def)
  have v2: "validateVerificationToken bwpExample (installRequest ''stale'') = Inl hashMismatch"
    using validate_hash_value [of "''stale''"] c
    by (simp add: validateVerificationToken_def tok truthy_def Let_def)
  from bwp_failure_causes_indistinguishable [OF a b c validate_hash_value d, of launched] v1 v2
  show ?thesis by simp
qed


end
